theory Spec2Isabelle
  imports Complex_Main "HOL-Library.Log_Nat"
begin

section \<open>JavaScript strings and errors\<close>

text \<open>
  A JavaScript string is a sequence of UTF-16 code units; a code unit is modelled as a
  natural number. \<open>js\<close> turns an ASCII literal into such a string. An exception is a value
  of the type \<open>error\<close>, and a computation that may throw returns \<open>error + 'a\<close>.
\<close>

type_synonym jsstring = "nat list"

definition js :: "string \<Rightarrow> jsstring" where
  "js s = map of_char s"

datatype error = TypeError | RangeError | URIError | SyntaxError

text \<open>\<open>String.prototype.split\<close> with a separator of one code unit and no limit.\<close>

fun split_on :: "nat \<Rightarrow> jsstring \<Rightarrow> jsstring list" where
  "split_on sep [] = [[]]"
| "split_on sep (c # cs) =
     (let ps = split_on sep cs in if c = sep then [] # ps else (c # hd ps) # tl ps)"

text \<open>
  \<open>String.prototype.trim\<close> removes the code units of WhiteSpace and LineTerminator
  (ECMA-262, 12.2 and 12.3) from both ends.
\<close>

definition is_white_space :: "nat \<Rightarrow> bool" where
  "is_white_space c =
     (c \<in> set [9, 10, 11, 12, 13, 32, 160, 5760, 8232, 8233, 8239, 8287, 12288, 65279]
      \<or> (8192 \<le> c \<and> c \<le> 8202))"

definition trim :: "jsstring \<Rightarrow> jsstring" where
  "trim s = rev (dropWhile is_white_space (rev (dropWhile is_white_space s)))"

text \<open>\<open>s.substring(a, b)\<close> and \<open>s.substring(a)\<close> for non-negative integer arguments.\<close>

definition substring :: "jsstring \<Rightarrow> nat \<Rightarrow> nat \<Rightarrow> jsstring" where
  "substring s a b =
     (let a' = min a (length s); b' = min b (length s);
          from = min a' b'; to = max a' b'
      in take (to - from) (drop from s))"

definition substring_from :: "jsstring \<Rightarrow> nat \<Rightarrow> jsstring" where
  "substring_from s a = drop (min a (length s)) s"

subsection \<open>decodeURIComponent\<close>

text \<open>
  The abstract operation Decode of ECMA-262 (19.2.6.6) with an empty set of preserved
  escapes. Every failure is a URIError: a \<open>%\<close> that is not followed by two hexadecimal
  digits, a first octet with one or more than four leading one bits, a missing or
  malformed continuation escape, or octets that are not the UTF-8 encoding of a code point.
\<close>

definition hex_val :: "nat \<Rightarrow> nat option" where
  "hex_val c =
     (if 48 \<le> c \<and> c \<le> 57 then Some (c - 48)
      else if 65 \<le> c \<and> c \<le> 70 then Some (c - 55)
      else if 97 \<le> c \<and> c \<le> 102 then Some (c - 87)
      else None)"

definition hex_octet :: "nat \<Rightarrow> nat \<Rightarrow> nat option" where
  "hex_octet h l =
     (case hex_val h of None \<Rightarrow> None
      | Some a \<Rightarrow> (case hex_val l of None \<Rightarrow> None | Some b \<Rightarrow> Some (16 * a + b)))"

definition leading_ones :: "nat \<Rightarrow> nat" where
  "leading_ones b =
     (if b < 128 then 0 else if b < 192 then 1 else if b < 224 then 2
      else if b < 240 then 3 else if b < 248 then 4 else 5)"

text \<open>The next \<open>j\<close> escapes \<open>%XX\<close> at the front of a string, as octets.\<close>

fun continuation_octets :: "nat \<Rightarrow> jsstring \<Rightarrow> nat list option" where
  "continuation_octets 0 s = Some []"
| "continuation_octets (Suc j) (p # h # l # s) =
     (if p = 37 then
        (case hex_octet h l of None \<Rightarrow> None
         | Some b \<Rightarrow> (case continuation_octets j s of None \<Rightarrow> None
                      | Some bs \<Rightarrow> Some (b # bs)))
      else None)"
| "continuation_octets (Suc j) s = None"

text \<open>
  The code point of a well-formed UTF-8 sequence of two to four octets: continuation
  octets lie in 80..BF, the encoding is the shortest one, and the code point is neither a
  surrogate nor above 10FFFF.
\<close>

definition is_continuation :: "nat \<Rightarrow> bool" where
  "is_continuation b = (128 \<le> b \<and> b < 192)"

definition utf8_code_point :: "nat list \<Rightarrow> nat option" where
  "utf8_code_point octets =
     (case octets of
        [a, b] \<Rightarrow>
          (let v = (a - 192) * 64 + (b - 128)
           in if is_continuation b \<and> 128 \<le> v then Some v else None)
      | [a, b, c] \<Rightarrow>
          (let v = (a - 224) * 4096 + (b - 128) * 64 + (c - 128)
           in if is_continuation b \<and> is_continuation c \<and> 2048 \<le> v
                 \<and> (v < 55296 \<or> 57343 < v)
              then Some v else None)
      | [a, b, c, d] \<Rightarrow>
          (let v = (a - 240) * 262144 + (b - 128) * 4096 + (c - 128) * 64 + (d - 128)
           in if is_continuation b \<and> is_continuation c \<and> is_continuation d
                 \<and> 65536 \<le> v \<and> v \<le> 1114111
              then Some v else None)
      | _ \<Rightarrow> None)"

definition utf16_encode :: "nat \<Rightarrow> jsstring" where
  "utf16_encode v =
     (if v \<le> 65535 then [v]
      else [(v - 65536) div 1024 + 55296, (v - 65536) mod 1024 + 56320])"

function decodeURIComponent :: "jsstring \<Rightarrow> error + jsstring" where
  "decodeURIComponent [] = Inr []"
| "decodeURIComponent (c # cs) =
     (if c \<noteq> 37 then
        (case decodeURIComponent cs of Inl e \<Rightarrow> Inl e | Inr r \<Rightarrow> Inr (c # r))
      else
        (case cs of
           h # l # rest \<Rightarrow>
             (case hex_octet h l of
                None \<Rightarrow> Inl URIError
              | Some b \<Rightarrow>
                  (let n = leading_ones b in
                   if n = 0 then
                     (case decodeURIComponent rest of
                        Inl e \<Rightarrow> Inl e | Inr r \<Rightarrow> Inr (b # r))
                   else if n = 1 \<or> 4 < n then Inl URIError
                   else
                     (case continuation_octets (n - 1) rest of
                        None \<Rightarrow> Inl URIError
                      | Some octets \<Rightarrow>
                          (case utf8_code_point (b # octets) of
                             None \<Rightarrow> Inl URIError
                           | Some v \<Rightarrow>
                               (case decodeURIComponent (drop (3 * (n - 1)) rest) of
                                  Inl e \<Rightarrow> Inl e
                                | Inr r \<Rightarrow> Inr (utf16_encode v @ r))))))
         | _ \<Rightarrow> Inl URIError))"
  by pat_completeness auto
termination
  by (relation "measure length") auto

section \<open>The cookie reader\<close>

text \<open>
  \<open>cookie_loop\<close> is the \<open>for\<close> loop of \<open>getCookie\<close> over the pieces of the cookie
  string, from the piece at index \<open>i\<close> on: the first trimmed piece that begins with the
  name and \<open>=\<close> ends the loop (\<open>break\<close>) with its decoded remainder; running off the end
  leaves \<open>cookieValue\<close> at \<open>null\<close>, which is \<open>None\<close>.
\<close>

fun cookie_loop :: "jsstring \<Rightarrow> jsstring list \<Rightarrow> error + jsstring option" where
  "cookie_loop name' [] = Inr None"
| "cookie_loop name' (piece # cookies) =
     (let cookie = trim piece in
      if substring cookie 0 (length name' + 1) = name' @ js ''=''
      then (case decodeURIComponent (substring_from cookie (length name' + 1)) of
              Inl e \<Rightarrow> Inl e
            | Inr v \<Rightarrow> Inr (Some v))
      else cookie_loop name' cookies)"

definition getCookie :: "jsstring \<Rightarrow> error + jsstring option" where
  "getCookie document_cookie =
     (let name' = js ''csrftoken'' in
      if document_cookie \<noteq> [] then cookie_loop name' (split_on 59 document_cookie)
      else Inr None)"

text \<open>
  The cookie reader in the words of its contract: the pairs of a cookie string are its
  pieces between semicolons, trimmed; a pair has the name \<open>n\<close> when it is \<open>n\<close>, then
  \<open>=\<close>, then its value.
\<close>

definition cookie_pairs :: "jsstring \<Rightarrow> jsstring list" where
  "cookie_pairs s = map trim (split_on 59 s)"

definition has_name :: "jsstring \<Rightarrow> jsstring \<Rightarrow> bool" where
  "has_name n p = (take (length n + 1) p = n @ js ''='')"

definition pair_value :: "jsstring \<Rightarrow> jsstring \<Rightarrow> jsstring" where
  "pair_value n p = drop (length n + 1) p"

definition first_pair :: "jsstring \<Rightarrow> jsstring \<Rightarrow> jsstring option" where
  "first_pair n s = find (has_name n) (cookie_pairs s)"

section \<open>Numbers\<close>

text \<open>
  A JavaScript Number is an IEEE 754 binary64 value. \<open>Fin s m\<close> is the finite value with
  sign \<open>s\<close> (\<open>True\<close> for negative) and magnitude \<open>m \<ge> 0\<close>, an exact rational, so
  \<open>Fin True 0\<close> is the negative zero; \<open>Inf s\<close> is an infinity. An arithmetic operation
  computes the exact rational result and rounds it to the nearest binary64 value, ties to
  the even significand (\<open>fl\<close>); a result of magnitude \<open>2 ^ 1024\<close> or more is an infinity.
\<close>

datatype number = NaN | Inf bool | Fin bool rat

definition ipow :: "nat \<Rightarrow> int \<Rightarrow> rat" where
  "ipow b e = (if 0 \<le> e then of_nat b ^ nat e else 1 / of_nat b ^ nat (- e))"

text \<open>For \<open>q > 0\<close>, \<open>magnitude b q\<close> is the integer \<open>n\<close> with \<open>b ^ (n - 1) \<le> q < b ^ n\<close>.\<close>

definition magnitude :: "nat \<Rightarrow> rat \<Rightarrow> int" where
  "magnitude b q =
     (if 1 \<le> q then int (floorlog b (nat \<lfloor>q\<rfloor>))
      else 1 - int (floorlog b (nat (\<lceil>1 / q\<rceil> - 1))))"

definition round_half_even :: "rat \<Rightarrow> int" where
  "round_half_even x =
     (if x - of_int \<lfloor>x\<rfloor> < 1 / 2 then \<lfloor>x\<rfloor>
      else if 1 / 2 < x - of_int \<lfloor>x\<rfloor> then \<lfloor>x\<rfloor> + 1
      else if even \<lfloor>x\<rfloor> then \<lfloor>x\<rfloor> else \<lfloor>x\<rfloor> + 1)"

text \<open>
  Rounding to a multiple of \<open>2 ^ (e - 52)\<close>, where \<open>e\<close> is the binary exponent of the
  value, and not below \<open>- 1022\<close> (the subnormal range).
\<close>

definition quantize :: "rat \<Rightarrow> int \<Rightarrow> rat" where
  "quantize q e = of_int (round_half_even (q / ipow 2 (e - 52))) * ipow 2 (e - 52)"

definition fl :: "rat \<Rightarrow> rat" where
  "fl q = quantize q (max (magnitude 2 q - 1) (- 1022))"

definition to_double :: "bool \<Rightarrow> rat \<Rightarrow> number" where
  "to_double s q = (if 2 ^ 1024 \<le> fl q then Inf s else Fin s (fl q))"

text \<open>The Number value of a decimal literal, or of a number in a JSON text.\<close>

definition number_of :: "rat \<Rightarrow> number" where
  "number_of q = to_double (q < 0) \<bar>q\<bar>"

text \<open>The operators \<open>*\<close> and \<open>/\<close> on Numbers (ECMA-262, 6.1.6.1.4 and 6.1.6.1.5).\<close>

fun multiply :: "number \<Rightarrow> number \<Rightarrow> number" where
  "multiply NaN y = NaN"
| "multiply x NaN = NaN"
| "multiply (Inf s) (Inf t) = Inf (s \<noteq> t)"
| "multiply (Inf s) (Fin t k) = (if k = 0 then NaN else Inf (s \<noteq> t))"
| "multiply (Fin s m) (Inf t) = (if m = 0 then NaN else Inf (s \<noteq> t))"
| "multiply (Fin s m) (Fin t k) = to_double (s \<noteq> t) (m * k)"

fun divide' :: "number \<Rightarrow> number \<Rightarrow> number" where
  "divide' NaN y = NaN"
| "divide' x NaN = NaN"
| "divide' (Inf s) (Inf t) = NaN"
| "divide' (Inf s) (Fin t k) = Inf (s \<noteq> t)"
| "divide' (Fin s m) (Inf t) = Fin (s \<noteq> t) 0"
| "divide' (Fin s m) (Fin t k) =
     (if k = 0 then (if m = 0 then NaN else Inf (s \<noteq> t))
      else to_double (s \<noteq> t) (m / k))"

text \<open>
  \<open>10 ** precision\<close> for a non-negative integer precision. ECMA-262 leaves the result of
  \<open>**\<close> implementation-approximated; the model takes the correctly rounded power, which is
  the exact power up to \<open>10 ^ 22\<close>. An engine may return a neighbouring Number for a
  larger power; the properties below that evaluate the formatter use precisions up to 2.
\<close>

definition pow10 :: "nat \<Rightarrow> number" where
  "pow10 p = to_double False (10 ^ p)"

text \<open>
  \<open>Math.round\<close>: the nearest integer, a tie going towards \<open>+\<infinity>\<close>; a negative argument
  of magnitude at most one half gives the negative zero.
\<close>

fun math_round :: "number \<Rightarrow> number" where
  "math_round NaN = NaN"
| "math_round (Inf s) = Inf s"
| "math_round (Fin False m) = Fin False (of_int \<lfloor>m + 1 / 2\<rfloor>)"
| "math_round (Fin True m) = Fin True (of_int \<lceil>m - 1 / 2\<rceil>)"

subsection \<open>Number to string\<close>

text \<open>The \<open>k\<close> decimal digits of \<open>s\<close>, and the decimal representation of a natural number.\<close>

definition digits_of :: "nat \<Rightarrow> nat \<Rightarrow> jsstring" where
  "digits_of k s = map (\<lambda>i. 48 + s div 10 ^ i mod 10) (rev [0..<k])"

definition decimal :: "nat \<Rightarrow> jsstring" where
  "decimal n = (if n = 0 then js ''0'' else digits_of (floorlog 10 n) n)"

text \<open>
  \<open>Number::toString\<close> (ECMA-262, 6.1.6.1.20) for a finite \<open>x > 0\<close> takes integers \<open>n\<close>,
  \<open>k\<close> and \<open>s\<close> with \<open>k \<ge> 1\<close>, \<open>10 ^ (k - 1) \<le> s < 10 ^ k\<close>, such that \<open>s * 10 ^ (n - k)\<close>
  converts to \<open>x\<close> and \<open>k\<close> is as small as possible. \<open>shortest\<close> computes them: for
  \<open>k = 1, 2, \<dots>\<close> the only candidates are the two multiples of \<open>10 ^ (n - k)\<close> around \<open>x\<close>;
  where both convert to \<open>x\<close> the one closer to \<open>x\<close> is taken. Seventeen digits identify
  every binary64 value, so the search ends there.
\<close>

definition roundtrips :: "rat \<Rightarrow> int \<Rightarrow> nat \<Rightarrow> bool" where
  "roundtrips x e s = (fl (of_nat s * ipow 10 e) = x)"

definition digits_pick :: "rat \<Rightarrow> int \<Rightarrow> nat \<Rightarrow> nat option" where
  "digits_pick x e lo =
     (if roundtrips x e lo \<and> roundtrips x e (lo + 1)
      then Some (nat (round_half_even (x / ipow 10 e)))
      else if roundtrips x e lo then Some lo
      else if roundtrips x e (lo + 1) then Some (lo + 1)
      else None)"

definition digits_at :: "rat \<Rightarrow> int \<Rightarrow> nat \<Rightarrow> nat option" where
  "digits_at x n k = digits_pick x (n - int k) (nat \<lfloor>x / ipow 10 (n - int k)\<rfloor>)"

fun first_digits :: "rat \<Rightarrow> int \<Rightarrow> nat list \<Rightarrow> (nat \<times> nat) option" where
  "first_digits x n [] = None"
| "first_digits x n (k # ks) =
     (case digits_at x n k of Some s \<Rightarrow> Some (k, s) | None \<Rightarrow> first_digits x n ks)"

fun normalise :: "int \<Rightarrow> nat \<times> nat \<Rightarrow> int \<times> nat \<times> nat" where
  "normalise n (k, s) = (if s = 10 ^ k then (n + 1, k, 10 ^ (k - 1)) else (n, k, s))"

definition shortest :: "rat \<Rightarrow> int \<times> nat \<times> nat" where
  "shortest x =
     normalise (magnitude 10 x)
       (case first_digits x (magnitude 10 x)
               [1, 2, 3, 4, 5, 6, 7, 8, 9, 10, 11, 12, 13, 14, 15, 16] of
          Some ks \<Rightarrow> ks
        | None \<Rightarrow> (17, nat (round_half_even (x / ipow 10 (magnitude 10 x - 17)))))"

definition exponential :: "nat \<Rightarrow> nat \<Rightarrow> int \<Rightarrow> jsstring" where
  "exponential k s e =
     (if k = 1 then digits_of k s
      else take 1 (digits_of k s) @ js ''.'' @ drop 1 (digits_of k s))
     @ js ''e'' @ (if 0 \<le> e then js ''+'' else js ''-'') @ decimal (nat \<bar>e\<bar>)"

fun render :: "int \<times> nat \<times> nat \<Rightarrow> jsstring" where
  "render (n, k, s) =
     (if int k \<le> n \<and> n \<le> 21 then digits_of k s @ replicate (nat (n - int k)) 48
      else if 0 < n \<and> n \<le> 21
        then take (nat n) (digits_of k s) @ js ''.'' @ drop (nat n) (digits_of k s)
      else if - 6 < n \<and> n \<le> 0 then js ''0.'' @ replicate (nat (- n)) 48 @ digits_of k s
      else exponential k s (n - 1))"

fun toString :: "number \<Rightarrow> jsstring" where
  "toString NaN = js ''NaN''"
| "toString (Inf s) = (if s then js ''-Infinity'' else js ''Infinity'')"
| "toString (Fin s m) =
     (if m = 0 then js ''0'' else (if s then js ''-'' else []) @ render (shortest m))"

text \<open>
  \<open>Number.prototype.toFixed\<close> (ECMA-262, 21.1.3.3) with \<open>f\<close> fraction digits: a
  RangeError when \<open>f\<close> exceeds 100; for a finite magnitude below \<open>10 ^ 21\<close> the digits of
  the integer \<open>n\<close> nearest to \<open>x * 10 ^ f\<close> (the larger one at a tie), with the point
  \<open>f\<close> digits from the right; otherwise the result of \<open>toString\<close>.
\<close>

definition pad :: "nat \<Rightarrow> jsstring \<Rightarrow> jsstring" where
  "pad f m = (if length m \<le> f then replicate (f + 1 - length m) 48 @ m else m)"

definition point :: "nat \<Rightarrow> jsstring \<Rightarrow> jsstring" where
  "point f m =
     (if f = 0 then m
      else take (length (pad f m) - f) (pad f m) @ js ''.''
           @ drop (length (pad f m) - f) (pad f m))"

definition fixed_digits :: "rat \<Rightarrow> nat \<Rightarrow> jsstring" where
  "fixed_digits x f = point f (decimal (nat \<lfloor>x * 10 ^ f + 1 / 2\<rfloor>))"

fun toFixed :: "number \<Rightarrow> nat \<Rightarrow> error + jsstring" where
  "toFixed x f =
     (if 100 < f then Inl RangeError
      else (case x of
              Fin s m \<Rightarrow>
                Inr ((if s \<and> m \<noteq> 0 then js ''-'' else []) @
                     (if 10 ^ 21 \<le> m then render (shortest m) else fixed_digits m f))
            | _ \<Rightarrow> Inr (toString x)))"

section \<open>The formatter\<close>

text \<open>
  \<open>xs[i]\<close> is \<open>undefined\<close>, here \<open>None\<close>, beyond the end of the array. In \<open>format\<close>,
  \<open>dec\<close> is the second piece of the split; \<open>dec && dec.length > precision\<close> is falsy when
  \<open>dec\<close> is \<open>undefined\<close> or the empty string.
\<close>

definition index :: "'a list \<Rightarrow> nat \<Rightarrow> 'a option" where
  "index xs i = (if i < length xs then Some (xs ! i) else None)"

definition format :: "number \<Rightarrow> nat \<Rightarrow> error + jsstring" where
  "format val precision =
     (let result = divide' (math_round (multiply val (pow10 precision))) (pow10 precision);
          dec = index (split_on 46 (toString result)) 1;
          len = (case dec of
                   None \<Rightarrow> precision
                 | Some d \<Rightarrow>
                     if d \<noteq> [] \<and> precision < length d then length d else precision)
      in toFixed result len)"

text \<open>
  The formatter in the words of its contract. \<open>rounded\<close> is the value scaled by
  \<open>10 ^ precision\<close>, rounded to an integer and scaled back, all in Number arithmetic.
  \<open>fraction_length\<close> is the number of code units after the first point of a string, 0
  when it has none. \<open>fixed_point\<close> is the fixed-point notation of a finite Number with
  \<open>f\<close> fraction digits.
\<close>

definition rounded :: "number \<Rightarrow> nat \<Rightarrow> number" where
  "rounded val precision =
     divide' (math_round (multiply val (pow10 precision))) (pow10 precision)"

definition fraction_length :: "jsstring \<Rightarrow> nat" where
  "fraction_length s = (case index (split_on 46 s) 1 of None \<Rightarrow> 0 | Some d \<Rightarrow> length d)"

definition fixed_point :: "bool \<Rightarrow> rat \<Rightarrow> nat \<Rightarrow> jsstring" where
  "fixed_point s m f = (if s \<and> m \<noteq> 0 then js ''-'' else []) @ fixed_digits m f"

text \<open>
  The magnitudes that rounding to binary64 produces: zero, or between the least subnormal
  \<open>2 ^ - 1074\<close> and \<open>2 ^ 1024\<close>.
\<close>

definition small_exp :: "rat \<Rightarrow> bool" where
  "small_exp m = (m \<le> 0 \<or> (1 / 2 ^ 1074 \<le> m \<and> m < 2 ^ 1024))"

fun bounded :: "number \<Rightarrow> bool" where
  "bounded (Fin s m) = small_exp m"
| "bounded x = True"

section \<open>Response values, the page and the request\<close>

text \<open>
  The value that \<open>response.json()\<close> delivers is a tree of JavaScript values. An object is
  the list of its own properties (each key once, as \<open>JSON.parse\<close> leaves them).
  \<open>Undefined\<close> is the result of reading a property that is not there.
\<close>

datatype jsvalue =
    Undefined
  | Null
  | Bool bool
  | Num number
  | Str jsstring
  | Arr "jsvalue list"
  | Obj "(jsstring \<times> jsvalue) list"

text \<open>
  \<open>v.key\<close> for a key that no prototype defines (\<open>pH\<close>, \<open>T\<close>, \<open>ec\<close>, \<open>ORP\<close>, \<open>Ok\<close>):
  a TypeError on \<open>undefined\<close> and \<open>null\<close>, the own property of an object, and
  \<open>undefined\<close> on every other value.
\<close>

fun member :: "jsvalue \<Rightarrow> jsstring \<Rightarrow> error + jsvalue" where
  "member Undefined key = Inl TypeError"
| "member Null key = Inl TypeError"
| "member (Obj ps) key = (case map_of ps key of None \<Rightarrow> Inr Undefined | Some v \<Rightarrow> Inr v)"
| "member v key = Inr Undefined"

text \<open>
  \<open>v.hasOwnProperty('Ok')\<close>: a TypeError on \<open>undefined\<close> and \<open>null\<close>. An object whose
  own properties include \<open>hasOwnProperty\<close> shadows the method of \<open>Object.prototype\<close> with
  a value that is not callable, a TypeError again. Booleans, numbers, strings and arrays
  have no own property \<open>Ok\<close>.
\<close>

fun hasOwnProperty_Ok :: "jsvalue \<Rightarrow> error + bool" where
  "hasOwnProperty_Ok Undefined = Inl TypeError"
| "hasOwnProperty_Ok Null = Inl TypeError"
| "hasOwnProperty_Ok (Obj ps) =
     (if map_of ps (js ''hasOwnProperty'') \<noteq> None then Inl TypeError
      else Inr (map_of ps (js ''Ok'') \<noteq> None))"
| "hasOwnProperty_Ok v = Inr False"

text \<open>
  ToNumber, applied to the first operand of \<open>*\<close>. The conversion of strings, arrays and
  objects (ToPrimitive and StringToNumber) is not modelled: it is the parameter
  \<open>coerce\<close>, which may throw, and every statement below holds for each such function.
\<close>

fun to_number :: "(jsvalue \<Rightarrow> error + number) \<Rightarrow> jsvalue \<Rightarrow> error + number" where
  "to_number coerce Undefined = Inr NaN"
| "to_number coerce Null = Inr (Fin False 0)"
| "to_number coerce (Bool b) = Inr (Fin False (if b then 1 else 0))"
| "to_number coerce (Num x) = Inr x"
| "to_number coerce v = coerce v"

text \<open>
  The state that \<open>update_readings\<close> reads and writes: the cookie string of the document,
  the text content of the elements of the page by their id, the variables of the global
  object that the script creates, and the requests passed to \<open>fetch\<close> so far.
\<close>

record request =
  url :: jsstring
  method' :: jsstring
  headers :: "(jsstring \<times> jsstring option) list"
  credentials :: jsstring

record world =
  cookie :: jsstring
  elements :: "jsstring \<rightharpoonup> jsstring"
  globals :: "jsstring \<rightharpoonup> jsvalue"
  requests :: "request list"

text \<open>
  A statement either completes or throws; in both cases the state it has reached stays.
\<close>

datatype outcome = Returned world | Threw error world

definition and_then :: "outcome \<Rightarrow> (world \<Rightarrow> outcome) \<Rightarrow> outcome" where
  "and_then r f = (case r of Returned w \<Rightarrow> f w | Threw e w \<Rightarrow> Threw e w)"

text \<open>
  \<open>document.getElementById(id).textContent = s\<close>: a TypeError when the page has no such
  element, since \<open>getElementById\<close> is \<open>null\<close> then.
\<close>

definition set_textContent :: "jsstring \<Rightarrow> jsstring \<Rightarrow> world \<Rightarrow> outcome" where
  "set_textContent ident s w =
     (if elements w ident = None then Threw TypeError w
      else Returned (w\<lparr>elements := (elements w)(ident \<mapsto> s)\<rparr>))"

section \<open>The reading updater\<close>

text \<open>
  \<open>if (r.KEY.hasOwnProperty('Ok')) { body }\<close>, where the body begins by reading
  \<open>r.KEY.Ok\<close>.
\<close>

definition if_Ok :: "jsstring \<Rightarrow> jsvalue \<Rightarrow> world \<Rightarrow> (jsvalue \<Rightarrow> outcome) \<Rightarrow> outcome" where
  "if_Ok key r w body =
     (case member r key of
        Inl e \<Rightarrow> Threw e w
      | Inr field \<Rightarrow>
          (case hasOwnProperty_Ok field of
             Inl e \<Rightarrow> Threw e w
           | Inr has \<Rightarrow>
               if has then (case member field (js ''Ok'') of
                              Inl e \<Rightarrow> Threw e w
                            | Inr payload \<Rightarrow> body payload)
               else Returned w))"

text \<open>
  \<open>document.getElementById(id).textContent = format(v, precision)\<close>. The right-hand side
  is evaluated before the assignment fails on a missing element (ECMA-262, 13.15.2:
  the reference is made first, the value computed next, and PutValue converts the base
  to an object last).
\<close>

definition show_formatted :: "jsstring \<Rightarrow> number \<Rightarrow> nat \<Rightarrow> world \<Rightarrow> outcome" where
  "show_formatted ident v precision w =
     (case format v precision of
        Inl e \<Rightarrow> Threw e w
      | Inr s \<Rightarrow> set_textContent ident s w)"

text \<open>
  The four statements of the response handler. The first thing \<open>format\<close> does with \<open>val\<close>
  is \<open>val * 10**precision\<close>, which converts it to a Number. The fourth statement passes
  \<open>disp = r.ORP.Ok\<close>: the script is not in strict mode and declares no \<open>disp\<close>, so the
  assignment sets a variable of the global object, before \<open>format\<close> is called.
\<close>

definition reading_pH :: "(jsvalue \<Rightarrow> error + number) \<Rightarrow> jsvalue \<Rightarrow> world \<Rightarrow> outcome" where
  "reading_pH coerce r w =
     if_Ok (js ''pH'') r w (\<lambda>payload.
       case to_number coerce payload of
         Inl e \<Rightarrow> Threw e w
       | Inr v \<Rightarrow> show_formatted (js ''ph-reading'') v 1 w)"

definition reading_T :: "(jsvalue \<Rightarrow> error + number) \<Rightarrow> jsvalue \<Rightarrow> world \<Rightarrow> outcome" where
  "reading_T coerce r w =
     if_Ok (js ''T'') r w (\<lambda>payload.
       case to_number coerce payload of
         Inl e \<Rightarrow> Threw e w
       | Inr v \<Rightarrow> show_formatted (js ''temp-reading'') v 1 w)"

definition reading_ec :: "(jsvalue \<Rightarrow> error + number) \<Rightarrow> jsvalue \<Rightarrow> world \<Rightarrow> outcome" where
  "reading_ec coerce r w =
     if_Ok (js ''ec'') r w (\<lambda>payload.
       case to_number coerce payload of
         Inl e \<Rightarrow> Threw e w
       | Inr v \<Rightarrow>
           show_formatted (js ''ec-reading'') (multiply v (number_of 1000000)) 0 w)"

definition assign_disp :: "jsvalue \<Rightarrow> world \<Rightarrow> world" where
  "assign_disp v w = w\<lparr>globals := (globals w)(js ''disp'' \<mapsto> v)\<rparr>"

definition reading_ORP :: "(jsvalue \<Rightarrow> error + number) \<Rightarrow> jsvalue \<Rightarrow> world \<Rightarrow> outcome" where
  "reading_ORP coerce r w =
     if_Ok (js ''ORP'') r w (\<lambda>payload.
       case to_number coerce payload of
         Inl e \<Rightarrow> Threw e (assign_disp payload w)
       | Inr v \<Rightarrow> show_formatted (js ''orp-reading'') v 0 (assign_disp payload w))"

text \<open>The callback \<open>r => { ... }\<close>: the four statements in their order.\<close>

definition handler :: "(jsvalue \<Rightarrow> error + number) \<Rightarrow> jsvalue \<Rightarrow> world \<Rightarrow> outcome" where
  "handler coerce r w =
     and_then (and_then (and_then (reading_pH coerce r w) (reading_T coerce r))
                 (reading_ec coerce r))
       (reading_ORP coerce r)"

text \<open>
  The synchronous part of \<open>update_readings\<close>: the argument of \<open>fetch\<close> is built first, so
  an exception of \<open>getCookie\<close> leaves before \<open>fetch\<close> is called. A header whose value is
  \<open>null\<close> has the value \<open>None\<close>.
\<close>

definition readings_request :: "jsstring option \<Rightarrow> request" where
  "readings_request token =
     \<lparr>url = js ''/api/readings'',
      method' = js ''GET'',
      headers =
        [(js ''X-CSRFToken'', token),
         (js ''Content-Type'', Some (js ''application/json; charset=UTF-8'')),
         (js ''Accept'', Some (js ''application/json'')),
         (js ''X-Requested-With'', Some (js ''XMLHttpRequest''))],
      credentials = js ''include''\<rparr>"

definition update_readings :: "world \<Rightarrow> outcome" where
  "update_readings w =
     (case getCookie (cookie w) of
        Inl e \<Rightarrow> Threw e w
      | Inr token \<Rightarrow> Returned (w\<lparr>requests := requests w @ [readings_request token]\<rparr>))"

text \<open>
  What becomes of the promise chain \<open>fetch(...).then(response => response.json()).then(r => ...)\<close>:
  \<open>fetch\<close> rejects, or \<open>response.json()\<close> rejects, or the body parses to a value and the
  handler runs. The chain has no rejection handler, so \<open>Threw\<close> is a promise that ends
  rejected with nobody to observe it.
\<close>

datatype delivery = FetchRejected error | JsonRejected error | Parsed jsvalue

definition settle :: "(jsvalue \<Rightarrow> error + number) \<Rightarrow> delivery \<Rightarrow> world \<Rightarrow> outcome" where
  "settle coerce d w =
     (case d of
        FetchRejected e \<Rightarrow> Threw e w
      | JsonRejected e \<Rightarrow> Threw e w
      | Parsed r \<Rightarrow> handler coerce r w)"

section \<open>Vocabulary of the properties\<close>

text \<open>
  \<open>formatted v p\<close> is the string that \<open>format(v, p)\<close> returns.
\<close>

definition formatted :: "number \<Rightarrow> nat \<Rightarrow> jsstring" where
  "formatted v precision = (case format v precision of Inr s \<Rightarrow> s | Inl e \<Rightarrow> [])"

text \<open>
  What a top-level field of a response holds. \<open>field_reading r key = Some (Some v)\<close>: the
  field carries the tag \<open>Ok\<close> with the number \<open>v\<close>. \<open>field_reading r key = Some None\<close>:
  the field has no own property \<open>Ok\<close>. \<open>None\<close>: the field cannot be inspected (it is
  absent or \<open>null\<close>, or it has an own property named \<open>hasOwnProperty\<close>), or the payload
  of \<open>Ok\<close> is not a number.
\<close>

definition field_reading :: "jsvalue \<Rightarrow> jsstring \<Rightarrow> number option option" where
  "field_reading r key =
     (case member r key of
        Inl e \<Rightarrow> None
      | Inr field \<Rightarrow>
          (case hasOwnProperty_Ok field of
             Inl e \<Rightarrow> None
           | Inr has \<Rightarrow>
               if has then (case member field (js ''Ok'') of
                              Inr (Num v) \<Rightarrow> Some (Some v)
                            | _ \<Rightarrow> None)
               else Some None))"

text \<open>A response has no top-level field \<open>key\<close>; a response that is not an object has none.\<close>

definition absent :: "jsvalue \<Rightarrow> jsstring \<Rightarrow> bool" where
  "absent r key = (case r of Obj ps \<Rightarrow> map_of ps key = None | _ \<Rightarrow> True)"

text \<open>The page has the four display elements.\<close>

definition has_displays :: "world \<Rightarrow> bool" where
  "has_displays w =
     (elements w (js ''ph-reading'') \<noteq> None \<and> elements w (js ''temp-reading'') \<noteq> None
      \<and> elements w (js ''ec-reading'') \<noteq> None \<and> elements w (js ''orp-reading'') \<noteq> None)"

text \<open>
  The text of a display after the handler: the old one for a field without \<open>Ok\<close>, the
  formatted payload for a field with \<open>Ok\<close>. \<open>is_display\<close> holds of the four ids.
\<close>

definition shown :: "number option \<Rightarrow> nat \<Rightarrow> jsstring option \<Rightarrow> jsstring option" where
  "shown reading precision old =
     (case reading of None \<Rightarrow> old | Some v \<Rightarrow> Some (formatted v precision))"

definition is_display :: "jsstring \<Rightarrow> bool" where
  "is_display ident =
     (ident = js ''ph-reading'' \<or> ident = js ''temp-reading''
      \<or> ident = js ''ec-reading'' \<or> ident = js ''orp-reading'')"

text \<open>
  The number that the statement for a field passes to \<open>format\<close>: the payload of \<open>Ok\<close>
  converted to a Number, when the field can be inspected, carries \<open>Ok\<close> and the conversion
  returns; \<open>None\<close> otherwise, in particular for a field that is absent.
\<close>

definition number_reading :: "(jsvalue \<Rightarrow> error + number) \<Rightarrow> jsvalue \<Rightarrow> jsstring \<Rightarrow> number option" where
  "number_reading coerce r key =
     (case member r key of
        Inl e \<Rightarrow> None
      | Inr field \<Rightarrow>
          (case hasOwnProperty_Ok field of
             Inl e \<Rightarrow> None
           | Inr has \<Rightarrow>
               if has then (case member field (js ''Ok'') of
                              Inl e \<Rightarrow> None
                            | Inr payload \<Rightarrow>
                                (case to_number coerce payload of
                                   Inl e \<Rightarrow> None | Inr v \<Rightarrow> Some v))
               else None))"

text \<open>
  The state \<open>w'\<close> differs from \<open>w\<close> by writes of readings alone: the requests, the
  cookie and the elements other than the four displays are as in \<open>w\<close>, and each display
  has either its text of \<open>w\<close> or the formatted reading of its own field.
\<close>

definition only_readings :: "(jsvalue \<Rightarrow> error + number) \<Rightarrow> jsvalue \<Rightarrow> world \<Rightarrow> world \<Rightarrow> bool" where
  "only_readings coerce r w w' =
     (requests w' = requests w \<and> cookie w' = cookie w
      \<and> (\<forall>ident. \<not> is_display ident \<longrightarrow> elements w' ident = elements w ident)
      \<and> (elements w' (js ''ph-reading'') = elements w (js ''ph-reading'')
         \<or> elements w' (js ''ph-reading'')
             = shown (number_reading coerce r (js ''pH'')) 1 (elements w (js ''ph-reading'')))
      \<and> (elements w' (js ''temp-reading'') = elements w (js ''temp-reading'')
         \<or> elements w' (js ''temp-reading'')
             = shown (number_reading coerce r (js ''T'')) 1 (elements w (js ''temp-reading'')))
      \<and> (elements w' (js ''ec-reading'') = elements w (js ''ec-reading'')
         \<or> elements w' (js ''ec-reading'')
             = shown (map_option (\<lambda>v. multiply v (number_of 1000000))
                        (number_reading coerce r (js ''ec''))) 0
                 (elements w (js ''ec-reading'')))
      \<and> (elements w' (js ''orp-reading'') = elements w (js ''orp-reading'')
         \<or> elements w' (js ''orp-reading'')
             = shown (number_reading coerce r (js ''ORP'')) 0 (elements w (js ''orp-reading''))))"

text \<open>
  A page with the four display elements showing \<open>--\<close>, a session cookie, no global
  variable of the script and no request yet; the response of the specification's example;
  and a conversion for payloads that are not numbers, which none of the examples reaches.
\<close>

definition page :: world where
  "page =
     \<lparr>cookie = js ''csrftoken=abc123; other=xyz'',
      elements = [js ''ph-reading'' \<mapsto> js ''--'', js ''temp-reading'' \<mapsto> js ''--'',
                  js ''ec-reading'' \<mapsto> js ''--'', js ''orp-reading'' \<mapsto> js ''--''],
      globals = Map.empty,
      requests = []\<rparr>"

definition ok :: "rat \<Rightarrow> jsvalue" where
  "ok q = Obj [(js ''Ok'', Num (number_of q))]"

definition example_response :: jsvalue where
  "example_response =
     Obj [(js ''pH'', ok (701 / 100)), (js ''T'', ok 25),
          (js ''ec'', ok (15 / 10000)), (js ''ORP'', ok (1502 / 10))]"

text \<open>
  Variants of the example: the \<open>pH\<close> field reports an error instead of \<open>Ok\<close>; it is
  \<open>null\<close>; it has an own property named \<open>hasOwnProperty\<close> beside \<open>Ok\<close>; and the
  responses that have the first one, two and three fields of the example alone, with the
  pages that the statements for these fields leave; and the example without its field
  \<open>pH\<close>.
\<close>

definition others :: "(jsstring \<times> jsvalue) list" where
  "others = [(js ''T'', ok 25), (js ''ec'', ok (15 / 10000)), (js ''ORP'', ok (1502 / 10))]"

definition pH_error_response :: jsvalue where
  "pH_error_response = Obj ((js ''pH'', Obj [(js ''Err'', Str (js ''NotReady''))]) # others)"

definition pH_null_response :: jsvalue where
  "pH_null_response = Obj ((js ''pH'', Null) # others)"

definition pH_shadowed_response :: jsvalue where
  "pH_shadowed_response =
     Obj ((js ''pH'', Obj [(js ''Ok'', Num (number_of (701 / 100))),
                           (js ''hasOwnProperty'', Null)]) # others)"

definition pH_only_response :: jsvalue where
  "pH_only_response = Obj [(js ''pH'', ok (701 / 100))]"

definition no_pH_response :: jsvalue where
  "no_pH_response = Obj others"

definition upto_T_response :: jsvalue where
  "upto_T_response = Obj [(js ''pH'', ok (701 / 100)), (js ''T'', ok 25)]"

definition upto_ec_response :: jsvalue where
  "upto_ec_response =
     Obj [(js ''pH'', ok (701 / 100)), (js ''T'', ok 25), (js ''ec'', ok (15 / 10000))]"

definition page_pH :: world where
  "page_pH = page\<lparr>elements := (elements page)(js ''ph-reading'' \<mapsto> js ''7.0'')\<rparr>"

definition page_T :: world where
  "page_T = page_pH\<lparr>elements := (elements page_pH)(js ''temp-reading'' \<mapsto> js ''25.0'')\<rparr>"

definition page_ec :: world where
  "page_ec = page_T\<lparr>elements := (elements page_T)(js ''ec-reading'' \<mapsto> js ''1500'')\<rparr>"

definition to_NaN :: "jsvalue \<Rightarrow> error + number" where
  "to_NaN v = Inr NaN"


text \<open>
  The state an outcome ends in, whether it threw, and the part of the state that the
  response handler is not meant to touch: the requests, the cookie and the elements other
  than the four displays.
\<close>

fun world_of :: "outcome \<Rightarrow> world" where
  "world_of (Returned w) = w"
| "world_of (Threw e w) = w"

fun threw :: "outcome \<Rightarrow> bool" where
  "threw (Returned w) = False"
| "threw (Threw e w) = True"

definition untouched :: "world \<Rightarrow> world \<Rightarrow> bool" where
  "untouched w w' =
     (requests w' = requests w \<and> cookie w' = cookie w
      \<and> (\<forall>ident. \<not> is_display ident \<longrightarrow> elements w' ident = elements w ident))"


section \<open>Properties of the cookie reader\<close>

lemmas string_eval =
  js_def trim_def is_white_space_def substring_def substring_from_def hex_octet_def
  hex_val_def leading_ones_def is_continuation_def utf8_code_point_def utf16_encode_def
  getCookie_def Let_def

lemma substring_0: "substring s 0 b = take b s"
  by (simp add: substring_def Let_def min_def)

lemma substring_from_drop: "substring_from s a = drop a s"
  by (simp add: substring_from_def min_def)

lemma cookie_loop_find:
  "cookie_loop n ps =
     (case find (has_name n) (map trim ps) of
        None \<Rightarrow> Inr None
      | Some p \<Rightarrow> (case decodeURIComponent (pair_value n p) of
                    Inl e \<Rightarrow> Inl e | Inr v \<Rightarrow> Inr (Some v)))"
  by (induction ps)
     (simp_all add: Let_def has_name_def pair_value_def substring_0 substring_from_drop)

lemma has_name_iff: "has_name n p \<longleftrightarrow> (\<exists>v. p = n @ js ''='' @ v)"
proof
  assume "has_name n p"
  then have "p = (n @ js ''='') @ drop (length n + 1) p"
    unfolding has_name_def by (metis append_take_drop_id)
  then show "\<exists>v. p = n @ js ''='' @ v" by auto
next
  assume "\<exists>v. p = n @ js ''='' @ v"
  then show "has_name n p" by (auto simp: has_name_def js_def)
qed

lemma first_pair_empty: "first_pair (js ''csrftoken'') [] = None"
  by (simp add: first_pair_def cookie_pairs_def has_name_def string_eval)

lemma getCookie_find:
  "getCookie s =
     (case first_pair (js ''csrftoken'') s of
        None \<Rightarrow> Inr None
      | Some p \<Rightarrow> (case decodeURIComponent (pair_value (js ''csrftoken'') p) of
                    Inl e \<Rightarrow> Inl e | Inr v \<Rightarrow> Inr (Some v)))"
proof (cases "s = []")
  case True
  then show ?thesis by (simp add: getCookie_def first_pair_empty)
next
  case False
  then show ?thesis
    by (simp add: getCookie_def first_pair_def cookie_pairs_def cookie_loop_find Let_def)
qed

lemma decodeURIComponent_URIError: "decodeURIComponent s = Inl e \<Longrightarrow> e = URIError"
proof (induction "length s" arbitrary: s e rule: less_induct)
  case less
  show ?case
  proof (cases s)
    case Nil
    with less.prems show ?thesis by simp
  next
    case (Cons c cs)
    have ih: "e = URIError" if "length t \<le> length cs" "decodeURIComponent t = Inl e" for t e
      using that by (intro less.hyps [of t e]) (simp_all add: Cons)
    from less.prems Cons show ?thesis
      by (auto simp: Let_def dest!: ih [rotated]
               split: if_splits list.splits option.splits sum.splits)
  qed
qed

lemma getCookie_URIError: "getCookie s = Inl e \<Longrightarrow> e = URIError"
  by (auto simp: getCookie_find dest: decodeURIComponent_URIError
           split: option.splits sum.splits)

text \<open>
  Claim C4, as the code has it. For every cookie string, \<open>getCookie\<close> looks at the first
  semicolon-separated, whitespace-trimmed pair whose name is exactly \<open>csrftoken\<close>: it
  returns null when there is no such pair (in particular for the empty string), and
  otherwise the result of percent-decoding the pair's value, which is the decoded string
  when the value is well-formed and a URIError when it is not. The two test vectors of the
  specification hold, and a name that only begins with \<open>csrftoken\<close> does not match: a pair
  has the name when it is \<open>csrftoken=\<close> followed by its value.
\<close>

theorem getCookie_first_pair:
  "getCookie s =
     (case first_pair (js ''csrftoken'') s of
        None \<Rightarrow> Inr None
      | Some p \<Rightarrow> (case decodeURIComponent (pair_value (js ''csrftoken'') p) of
                    Inl e \<Rightarrow> Inl e | Inr v \<Rightarrow> Inr (Some v)))
   \<and> getCookie [] = Inr None
   \<and> getCookie (js ''csrftoken=abc123; other=xyz'') = Inr (Some (js ''abc123''))
   \<and> getCookie (js ''other=xyz; csrftoken=a%20b'') = Inr (Some (js ''a b''))
   \<and> getCookie (js ''csrftokenX=abc123'') = Inr None
   \<and> has_name (js ''csrftoken'') p = (\<exists>v. p = js ''csrftoken'' @ js ''='' @ v)"
proof -
  have general: "getCookie s =
     (case first_pair (js ''csrftoken'') s of
        None \<Rightarrow> Inr None
      | Some p \<Rightarrow> (case decodeURIComponent (pair_value (js ''csrftoken'') p) of
                    Inl e \<Rightarrow> Inl e | Inr v \<Rightarrow> Inr (Some v)))"
    by (rule getCookie_find)
  have e1: "getCookie [] = Inr None"
    by (simp add: getCookie_def)
  have e2: "getCookie (js ''csrftoken=abc123; other=xyz'') = Inr (Some (js ''abc123''))"
    by (simp add: string_eval)
  have e3: "getCookie (js ''other=xyz; csrftoken=a%20b'') = Inr (Some (js ''a b''))"
    by (simp add: string_eval)
  have e4: "getCookie (js ''csrftokenX=abc123'') = Inr None"
    by (simp add: string_eval)
  have name: "has_name (js ''csrftoken'') p = (\<exists>v. p = js ''csrftoken'' @ js ''='' @ v)"
    by (rule has_name_iff)
  from general e1 e2 e3 e4 name show ?thesis by blast
qed

text \<open>
  Claim C4 as stated fails: the value of the matching pair is passed to
  \<open>decodeURIComponent\<close>, which throws on a malformed escape, so for the cookie string
  \<open>csrftoken=%\<close> the reader neither returns a decoded value nor null.
\<close>

theorem getCookie_malformed_throws:
  "getCookie (js ''csrftoken=%'') = Inl URIError"
  by (simp add: string_eval)

section \<open>The rounding of Numbers\<close>

text \<open>
  The rounding that the operations share is the one of IEEE 754: \<open>magnitude\<close> brackets a
  positive value between two powers of the base, \<open>round_half_even\<close> is within one half
  of its argument and even at a tie, so \<open>fl q\<close> is a multiple of the unit in the last
  place of \<open>q\<close> that is within half a unit of \<open>q\<close>.
\<close>

lemma round_half_even_nearest: "\<bar>of_int (round_half_even x) - x\<bar> \<le> 1 / 2"
proof -
  have "of_int \<lfloor>x\<rfloor> \<le> x" "x < of_int \<lfloor>x\<rfloor> + 1" by linarith+
  then show ?thesis unfolding round_half_even_def by (simp only: of_int_add of_int_1 split: if_split) linarith
qed

lemma round_half_even_tie:
  "x - of_int \<lfloor>x\<rfloor> = 1 / 2 \<Longrightarrow> even (round_half_even x)"
  by (simp add: round_half_even_def)

lemma fl_nearest:
  "\<bar>fl q - q\<bar> \<le> ipow 2 (max (magnitude 2 q - 1) (- 1022) - 52) / 2"
proof -
  define u where "u = ipow 2 (max (magnitude 2 q - 1) (- 1022) - 52)"
  have u: "0 < u" by (simp add: u_def ipow_def)
  have "fl q - q = (of_int (round_half_even (q / u)) - q / u) * u"
    using u by (simp add: fl_def quantize_def u_def [symmetric] field_simps)
  then have "\<bar>fl q - q\<bar> = \<bar>of_int (round_half_even (q / u)) - q / u\<bar> * u"
    using u by (simp add: abs_mult)
  also have "\<dots> \<le> 1 / 2 * u"
    using round_half_even_nearest [of "q / u"] u by (simp add: mult_right_mono)
  finally show ?thesis by (simp add: u_def)
qed

lemma magnitude_bounds:
  assumes "0 < q" "1 < b"
  shows "ipow b (magnitude b q - 1) \<le> q \<and> q < ipow b (magnitude b q)"
proof (cases "1 \<le> q")
  case True
  define z where "z = nat \<lfloor>q\<rfloor>"
  define n where "n = floorlog b z"
  from True have z: "0 < z" by (simp add: z_def)
  with assms(2) have b: "b ^ (n - 1) \<le> z" "z < b ^ n"
    using floorlog_bounds [of z b] by (simp_all add: n_def)
  from z assms(2) have n: "0 < n" by (simp add: n_def floorlog_def)
  have zq: "of_nat z \<le> q" "q < of_nat z + 1"
    using True by (simp_all add: z_def) linarith+
  have "(of_nat b :: rat) ^ (n - 1) = of_nat (b ^ (n - 1))" by simp
  also have "\<dots> \<le> of_nat z" using b(1) by (rule of_nat_le_iff [THEN iffD2])
  finally have lo: "of_nat b ^ (n - 1) \<le> q" using zq(1) by linarith
  have "z + 1 \<le> b ^ n" using b(2) by simp
  then have "(of_nat (z + 1) :: rat) \<le> of_nat (b ^ n)" by (rule of_nat_le_iff [THEN iffD2])
  also have "\<dots> = of_nat b ^ n" by simp
  finally have "of_nat z + 1 \<le> (of_nat b :: rat) ^ n" by simp
  with zq(2) have hi: "q < of_nat b ^ n" by linarith
  have m: "magnitude b q = int n" using True by (simp add: magnitude_def n_def z_def)
  from n have "nat (int n - 1) = n - 1" by simp
  with lo hi n show ?thesis by (simp add: m ipow_def)
next
  case False
  define y where "y = 1 / q"
  define z where "z = nat (\<lceil>y\<rceil> - 1)"
  define m where "m = floorlog b z"
  from False assms(1) have y1: "1 < y" by (simp add: y_def)
  then have "2 \<le> \<lceil>y\<rceil>" by (simp add: le_ceiling_iff)
  then have z: "0 < z" "int z = \<lceil>y\<rceil> - 1" by (simp_all add: z_def)
  with assms(2) have b: "b ^ (m - 1) \<le> z" "z < b ^ m"
    using floorlog_bounds [of z b] by (simp_all add: m_def)
  from z assms(2) have mpos: "0 < m" by (simp add: m_def floorlog_def)
  have "of_int (\<lceil>y\<rceil> - 1) < y" "y \<le> of_int \<lceil>y\<rceil>" by linarith+
  then have zy: "of_nat z < y" "y \<le> of_nat z + 1"
    using z(2) by (metis of_int_of_nat_eq, metis of_int_of_nat_eq of_int_add of_int_1 diff_add_cancel)
  have "(of_nat b :: rat) ^ (m - 1) = of_nat (b ^ (m - 1))" by simp
  also have "\<dots> \<le> of_nat z" using b(1) by (rule of_nat_le_iff [THEN iffD2])
  finally have lo: "of_nat b ^ (m - 1) < y" using zy(1) by linarith
  have "z + 1 \<le> b ^ m" using b(2) by simp
  then have "(of_nat (z + 1) :: rat) \<le> of_nat (b ^ m)" by (rule of_nat_le_iff [THEN iffD2])
  also have "\<dots> = of_nat b ^ m" by simp
  finally have "of_nat z + 1 \<le> (of_nat b :: rat) ^ m" by simp
  with zy(2) have hi: "y \<le> of_nat b ^ m" by linarith
  have bp: "0 < (of_nat b :: rat) ^ k" for k using assms(2) by simp
  from hi have q_lo: "1 / of_nat b ^ m \<le> q"
    using bp [of m] assms(1) by (simp add: y_def field_simps)
  from lo have q_hi: "q < 1 / of_nat b ^ (m - 1)"
    using bp [of "m - 1"] assms(1) by (simp add: y_def field_simps)
  have mag: "magnitude b q = 1 - int m" using False by (simp add: magnitude_def m_def z_def y_def)
  have "ipow b (1 - int m - 1) = 1 / of_nat b ^ m" using mpos by (simp add: ipow_def)
  moreover have "ipow b (1 - int m) = 1 / of_nat b ^ (m - 1)"
  proof (cases "m = 1")
    case True
    then show ?thesis by (simp add: ipow_def)
  next
    case False
    with mpos have "nat (int m - 1) = m - 1" "\<not> 0 \<le> 1 - int m" by simp_all
    then show ?thesis by (simp add: ipow_def)
  qed
  ultimately show ?thesis using q_lo q_hi by (simp add: mag)
qed

section \<open>Evaluating the formatter\<close>

text \<open>
  Rules that let the simplifier run the definitions on numerals, and the formatter on the
  inputs that the specification names. Each example records the Number that
  \<open>Math.round(val * 10**precision) / 10**precision\<close> yields, its \<open>toString\<close> and its
  \<open>toFixed\<close>.
\<close>

lemma floor_rat_numeral [simp]:
  "\<lfloor>numeral a / numeral b :: rat\<rfloor> = numeral a div numeral b"
  by (metis floor_divide_of_int_eq of_int_numeral)

lemma ceiling_rat_numeral [simp]:
  "\<lceil>numeral a / numeral b :: rat\<rceil> = - (- numeral a div numeral b)"
  using ceiling_divide_eq_div [of "numeral a" "numeral b", where ?'a = rat] by simp

lemma floorlog_numeral:
  "floorlog b (numeral n) = (if 1 < b then floorlog b (numeral n div b) + 1 else 0)"
  "floorlog b 1 = (if 1 < b then 1 else 0)"
  "floorlog b (Suc 0) = (if 1 < b then 1 else 0)"
  "floorlog b 0 = 0"
  by (subst compute_floorlog, simp)+

lemma replicate_numeral_eval:
  "replicate (numeral k) x = x # replicate (numeral k - 1) x"
  by (simp add: numeral_eq_Suc)

lemmas number_eval =
  ipow_def magnitude_def round_half_even_def quantize_def fl_def to_double_def number_of_def
  pow10_def floorlog_numeral digits_of_def decimal_def roundtrips_def digits_pick_def
  digits_at_def shortest_def exponential_def pad_def point_def fixed_digits_def index_def
  js_def upt_conv_Cons replicate_numeral_eval

lemma format_12_345: "format (number_of (12345 / 1000)) 1 = Inr (js ''12.3'')"
proof -
  have result: "divide' (math_round (multiply (number_of (12345 / 1000)) (pow10 1))) (pow10 1) = Fin False (3462142213541069 / 281474976710656)"
    by (simp add: number_eval)
  have string: "toString (Fin False (3462142213541069 / 281474976710656)) = js ''12.3''"
    by (simp add: number_eval)
  have fixed: "toFixed (Fin False (3462142213541069 / 281474976710656)) 1 = Inr (js ''12.3'')"
    by (simp add: number_eval)
  have len: "(case index (split_on 46 (js ''12.3'')) 1 of
               None \<Rightarrow> 1
             | Some d \<Rightarrow> if d \<noteq> [] \<and> 1 < length d then length d else 1) = 1"
    by (simp add: js_def index_def)
  show ?thesis
    unfolding format_def Let_def result string len by (rule fixed)
qed

lemma format_5: "format (number_of 5) 0 = Inr (js ''5'')"
proof -
  have result: "divide' (math_round (multiply (number_of 5) (pow10 0))) (pow10 0) = Fin False 5"
    by (simp add: number_eval)
  have string: "toString (Fin False 5) = js ''5''"
    by (simp add: number_eval)
  have fixed: "toFixed (Fin False 5) 0 = Inr (js ''5'')"
    by (simp add: number_eval)
  have len: "(case index (split_on 46 (js ''5'')) 1 of
               None \<Rightarrow> 0
             | Some d \<Rightarrow> if d \<noteq> [] \<and> 0 < length d then length d else 0) = 0"
    by (simp add: js_def index_def)
  show ?thesis
    unfolding format_def Let_def result string len by (rule fixed)
qed

lemma format_1_2345: "format (number_of (12345 / 10000)) 2 = Inr (js ''1.23'')"
proof -
  have result: "divide' (math_round (multiply (number_of (12345 / 10000)) (pow10 2))) (pow10 2) = Fin False (2769713770832855 / 2251799813685248)"
    by (simp add: number_eval)
  have string: "toString (Fin False (2769713770832855 / 2251799813685248)) = js ''1.23''"
    by (simp add: number_eval)
  have fixed: "toFixed (Fin False (2769713770832855 / 2251799813685248)) 2 = Inr (js ''1.23'')"
    by (simp add: number_eval)
  have len: "(case index (split_on 46 (js ''1.23'')) 1 of
               None \<Rightarrow> 2
             | Some d \<Rightarrow> if d \<noteq> [] \<and> 2 < length d then length d else 2) = 2"
    by (simp add: js_def index_def)
  show ?thesis
    unfolding format_def Let_def result string len by (rule fixed)
qed

lemma format_2_5: "format (number_of (25 / 10)) 0 = Inr (js ''3'')"
proof -
  have result: "divide' (math_round (multiply (number_of (25 / 10)) (pow10 0))) (pow10 0) = Fin False 3"
    by (simp add: number_eval)
  have string: "toString (Fin False 3) = js ''3''"
    by (simp add: number_eval)
  have fixed: "toFixed (Fin False 3) 0 = Inr (js ''3'')"
    by (simp add: number_eval)
  have len: "(case index (split_on 46 (js ''3'')) 1 of
               None \<Rightarrow> 0
             | Some d \<Rightarrow> if d \<noteq> [] \<and> 0 < length d then length d else 0) = 0"
    by (simp add: js_def index_def)
  show ?thesis
    unfolding format_def Let_def result string len by (rule fixed)
qed

lemma format_neg_2_5: "format (number_of (- 25 / 10)) 0 = Inr (js ''-2'')"
proof -
  have result: "divide' (math_round (multiply (number_of (- 25 / 10)) (pow10 0))) (pow10 0) = Fin True 2"
    by (simp add: number_eval)
  have string: "toString (Fin True 2) = js ''-2''"
    by (simp add: number_eval)
  have fixed: "toFixed (Fin True 2) 0 = Inr (js ''-2'')"
    by (simp add: number_eval)
  have len: "(case index (split_on 46 (js ''-2'')) 1 of
               None \<Rightarrow> 0
             | Some d \<Rightarrow> if d \<noteq> [] \<and> 0 < length d then length d else 0) = 0"
    by (simp add: js_def index_def)
  show ?thesis
    unfolding format_def Let_def result string len by (rule fixed)
qed

lemma format_0_25: "format (number_of (25 / 100)) 1 = Inr (js ''0.3'')"
proof -
  have result: "divide' (math_round (multiply (number_of (25 / 100)) (pow10 1))) (pow10 1) = Fin False (5404319552844595 / 18014398509481984)"
    by (simp add: number_eval)
  have string: "toString (Fin False (5404319552844595 / 18014398509481984)) = js ''0.3''"
    by (simp add: number_eval)
  have fixed: "toFixed (Fin False (5404319552844595 / 18014398509481984)) 1 = Inr (js ''0.3'')"
    by (simp add: number_eval)
  have len: "(case index (split_on 46 (js ''0.3'')) 1 of
               None \<Rightarrow> 1
             | Some d \<Rightarrow> if d \<noteq> [] \<and> 1 < length d then length d else 1) = 1"
    by (simp add: js_def index_def)
  show ?thesis
    unfolding format_def Let_def result string len by (rule fixed)
qed

lemma format_neg_0_25: "format (number_of (- 25 / 100)) 1 = Inr (js ''-0.2'')"
proof -
  have result: "divide' (math_round (multiply (number_of (- 25 / 100)) (pow10 1))) (pow10 1) = Fin True (3602879701896397 / 18014398509481984)"
    by (simp add: number_eval)
  have string: "toString (Fin True (3602879701896397 / 18014398509481984)) = js ''-0.2''"
    by (simp add: number_eval)
  have fixed: "toFixed (Fin True (3602879701896397 / 18014398509481984)) 1 = Inr (js ''-0.2'')"
    by (simp add: number_eval)
  have len: "(case index (split_on 46 (js ''-0.2'')) 1 of
               None \<Rightarrow> 1
             | Some d \<Rightarrow> if d \<noteq> [] \<and> 1 < length d then length d else 1) = 1"
    by (simp add: js_def index_def)
  show ?thesis
    unfolding format_def Let_def result string len by (rule fixed)
qed

lemma format_7_01: "format (number_of (701 / 100)) 1 = Inr (js ''7.0'')"
proof -
  have result: "divide' (math_round (multiply (number_of (701 / 100)) (pow10 1))) (pow10 1) = Fin False 7"
    by (simp add: number_eval)
  have string: "toString (Fin False 7) = js ''7''"
    by (simp add: number_eval)
  have fixed: "toFixed (Fin False 7) 1 = Inr (js ''7.0'')"
    by (simp add: number_eval)
  have len: "(case index (split_on 46 (js ''7'')) 1 of
               None \<Rightarrow> 1
             | Some d \<Rightarrow> if d \<noteq> [] \<and> 1 < length d then length d else 1) = 1"
    by (simp add: js_def index_def)
  show ?thesis
    unfolding format_def Let_def result string len by (rule fixed)
qed

lemma format_25: "format (number_of 25) 1 = Inr (js ''25.0'')"
proof -
  have result: "divide' (math_round (multiply (number_of 25) (pow10 1))) (pow10 1) = Fin False 25"
    by (simp add: number_eval)
  have string: "toString (Fin False 25) = js ''25''"
    by (simp add: number_eval)
  have fixed: "toFixed (Fin False 25) 1 = Inr (js ''25.0'')"
    by (simp add: number_eval)
  have len: "(case index (split_on 46 (js ''25'')) 1 of
               None \<Rightarrow> 1
             | Some d \<Rightarrow> if d \<noteq> [] \<and> 1 < length d then length d else 1) = 1"
    by (simp add: js_def index_def)
  show ?thesis
    unfolding format_def Let_def result string len by (rule fixed)
qed

lemma format_ec: "format (multiply (number_of (15 / 10000)) (number_of 1000000)) 0 = Inr (js ''1500'')"
proof -
  have result: "divide' (math_round (multiply (multiply (number_of (15 / 10000)) (number_of 1000000)) (pow10 0))) (pow10 0) = Fin False 1500"
    by (simp add: number_eval)
  have string: "toString (Fin False 1500) = js ''1500''"
    by (simp add: number_eval)
  have fixed: "toFixed (Fin False 1500) 0 = Inr (js ''1500'')"
    by (simp add: number_eval)
  have len: "(case index (split_on 46 (js ''1500'')) 1 of
               None \<Rightarrow> 0
             | Some d \<Rightarrow> if d \<noteq> [] \<and> 0 < length d then length d else 0) = 0"
    by (simp add: js_def index_def)
  show ?thesis
    unfolding format_def Let_def result string len by (rule fixed)
qed

lemma format_150_2: "format (number_of (1502 / 10)) 0 = Inr (js ''150'')"
proof -
  have result: "divide' (math_round (multiply (number_of (1502 / 10)) (pow10 0))) (pow10 0) = Fin False 150"
    by (simp add: number_eval)
  have string: "toString (Fin False 150) = js ''150''"
    by (simp add: number_eval)
  have fixed: "toFixed (Fin False 150) 0 = Inr (js ''150'')"
    by (simp add: number_eval)
  have len: "(case index (split_on 46 (js ''150'')) 1 of
               None \<Rightarrow> 0
             | Some d \<Rightarrow> if d \<noteq> [] \<and> 0 < length d then length d else 0) = 0"
    by (simp add: js_def index_def)
  show ?thesis
    unfolding format_def Let_def result string len by (rule fixed)
qed

lemma format_1e21: "format (number_of (10 ^ 21)) 0 = Inr (js ''1e+21'')"
proof -
  have result: "divide' (math_round (multiply (number_of (10 ^ 21)) (pow10 0))) (pow10 0) = Fin False 1000000000000000000000"
    by (simp add: number_eval)
  have string: "toString (Fin False 1000000000000000000000) = js ''1e+21''"
    by (simp add: number_eval)
  have fixed: "toFixed (Fin False 1000000000000000000000) 0 = Inr (js ''1e+21'')"
    by (simp add: number_eval)
  have len: "(case index (split_on 46 (js ''1e+21'')) 1 of
               None \<Rightarrow> 0
             | Some d \<Rightarrow> if d \<noteq> [] \<and> 0 < length d then length d else 0) = 0"
    by (simp add: js_def index_def)
  show ?thesis
    unfolding format_def Let_def result string len by (rule fixed)
qed

text \<open>
  Claim C7. The test vectors of the formatter: \<open>format(12.345, 1)\<close> is \<open>"12.3"\<close>,
  \<open>format(5, 0)\<close> is \<open>"5"\<close> with no decimal point, and \<open>format(1.2345, 2)\<close> is
  \<open>"1.23"\<close>, not \<open>"1.2345"\<close>.
\<close>

theorem format_test_vectors:
  "format (number_of (12345 / 1000)) 1 = Inr (js ''12.3'')
   \<and> format (number_of 5) 0 = Inr (js ''5'')
   \<and> format (number_of (12345 / 10000)) 2 = Inr (js ''1.23'')
   \<and> format (number_of (12345 / 10000)) 2 \<noteq> Inr (js ''1.2345'')"
  using format_12_345 format_5 format_1_2345 by (simp add: js_def)

text \<open>
  Claim C10. At an exact tie the rounding step goes towards \<open>+\<infinity>\<close>, neither to the
  even neighbour nor away from zero: \<open>format(2.5, 0)\<close> is \<open>"3"\<close> and \<open>format(-2.5, 0)\<close>
  is \<open>"-2"\<close>, \<open>format(0.25, 1)\<close> is \<open>"0.3"\<close> and \<open>format(-0.25, 1)\<close> is \<open>"-0.2"\<close>.
  The products \<open>2.5 * 1\<close> and \<open>0.25 * 10\<close> are exact, so these are ties of
  \<open>Math.round\<close> itself; and \<open>Math.round\<close> takes every tie \<open>n + 1/2\<close> to \<open>n + 1\<close> and
  every tie \<open>- (n + 1/2)\<close> to \<open>- n\<close>.
\<close>

theorem format_ties_round_up:
  "format (number_of (25 / 10)) 0 = Inr (js ''3'')
   \<and> format (number_of (- 25 / 10)) 0 = Inr (js ''-2'')
   \<and> format (number_of (25 / 100)) 1 = Inr (js ''0.3'')
   \<and> format (number_of (- 25 / 100)) 1 = Inr (js ''-0.2'')
   \<and> multiply (number_of (25 / 10)) (pow10 0) = Fin False (5 / 2)
   \<and> multiply (number_of (- 25 / 10)) (pow10 0) = Fin True (5 / 2)
   \<and> multiply (number_of (25 / 100)) (pow10 1) = Fin False (5 / 2)
   \<and> multiply (number_of (- 25 / 100)) (pow10 1) = Fin True (5 / 2)
   \<and> math_round (Fin False (5 / 2)) = Fin False 3
   \<and> math_round (Fin True (5 / 2)) = Fin True 2
   \<and> math_round (Fin False (of_nat n + 1 / 2)) = Fin False (of_nat n + 1)
   \<and> math_round (Fin True (of_nat n + 1 / 2)) = Fin True (of_nat n)"
proof -
  have products:
    "multiply (number_of (25 / 10)) (pow10 0) = Fin False (5 / 2)"
    "multiply (number_of (- 25 / 10)) (pow10 0) = Fin True (5 / 2)"
    "multiply (number_of (25 / 100)) (pow10 1) = Fin False (5 / 2)"
    "multiply (number_of (- 25 / 100)) (pow10 1) = Fin True (5 / 2)"
    by (simp_all add: number_eval)
  have rounds:
    "math_round (Fin False (5 / 2)) = Fin False 3"
    "math_round (Fin True (5 / 2)) = Fin True 2"
    by simp_all
  have "\<lfloor>rat_of_nat n + 1 / 2 + 1 / 2\<rfloor> = int n + 1" by (simp add: floor_eq_iff)
  moreover have "\<lceil>rat_of_nat n + 1 / 2 - 1 / 2\<rceil> = int n" by simp
  ultimately have ties:
    "math_round (Fin False (of_nat n + 1 / 2)) = Fin False (of_nat n + 1)"
    "math_round (Fin True (of_nat n + 1 / 2)) = Fin True (of_nat n)"
    by simp_all
  from products rounds ties format_2_5 format_neg_2_5 format_0_25 format_neg_0_25
  show ?thesis by blast
qed

section \<open>The formatter returns for a precision up to 100\<close>

text \<open>
  The Number that \<open>format\<close> renders is a quotient, so it is zero, an infinity, NaN or of
  a magnitude between \<open>2 ^ - 1074\<close> and \<open>2 ^ 1024\<close>. Its \<open>toString\<close> has at most 25
  code units, so the fraction digits that \<open>format\<close> asks of \<open>toFixed\<close> exceed 100
  only when the precision does.
\<close>

lemma ipow_pos: "0 < b \<Longrightarrow> 0 < ipow b e"
  by (simp add: ipow_def)

lemma ipow_power_int: "ipow b e = of_nat b powi e"
  by (simp add: ipow_def power_int_def power_one_over inverse_eq_divide)

lemma ipow2_mono: "a \<le> b \<Longrightarrow> ipow 2 a \<le> ipow 2 b"
  by (simp add: ipow_power_int power_int_increasing)

lemma fl_lower: "0 < fl q \<Longrightarrow> 1 / 2 ^ 1074 \<le> fl q"
proof -
  assume pos: "0 < fl q"
  define e where "e = max (magnitude 2 q - 1) (- 1022)"
  define R where "R = round_half_even (q / ipow 2 (e - 52))"
  have fl: "fl q = of_int R * ipow 2 (e - 52)"
    by (simp add: fl_def quantize_def e_def R_def)
  have p: "0 < ipow 2 (e - 52)" by (simp add: ipow_pos)
  from pos fl p have "0 < (of_int R :: rat)"
    by (simp add: zero_less_mult_iff)
  then have R1: "1 \<le> (of_int R :: rat)" by simp
  have "- 1074 \<le> e - 52" by (simp add: e_def)
  then have "ipow 2 (- 1074) \<le> ipow 2 (e - 52)" by (rule ipow2_mono)
  moreover have "ipow 2 (- 1074) = 1 / 2 ^ 1074" by (simp add: ipow_def)
  ultimately have "1 / 2 ^ 1074 \<le> ipow 2 (e - 52)" by simp
  also have "\<dots> \<le> of_int R * ipow 2 (e - 52)"
    using R1 p by (simp add: mult_le_cancel_right1)
  finally show ?thesis by (simp add: fl)
qed

lemma to_double_bounded: "bounded (to_double s q)"
proof (cases "2 ^ 1024 \<le> fl q")
  case True
  then show ?thesis by (simp add: to_double_def)
next
  case False
  have "small_exp (fl q)"
  proof (cases "0 < fl q")
    case True
    then have "1 / 2 ^ 1074 \<le> fl q" by (rule fl_lower)
    with False show ?thesis unfolding small_exp_def by linarith
  next
    case False
    then show ?thesis unfolding small_exp_def by linarith
  qed
  with False show ?thesis by (simp add: to_double_def)
qed

lemma divide_bounded: "bounded (divide' x y)"
  by (cases "(x, y)" rule: divide'.cases) (simp_all add: to_double_bounded small_exp_def)

lemma floorlog10_le:
  fixes z :: int and r :: rat
  assumes "of_int z \<le> r" "r < 2 ^ a" "(2::nat) ^ a \<le> 10 ^ w"
  shows "floorlog 10 (nat z) \<le> w"
proof -
  define B :: nat where "B = 10 ^ w"
  have "(of_int z :: rat) < 2 ^ a" using assms(1,2) by linarith
  also have "(2::rat) ^ a = of_nat (2 ^ a)" by simp
  also have "\<dots> \<le> of_nat B" unfolding B_def using assms(3) of_nat_le_iff by blast
  finally have "(of_int z :: rat) < of_int (int B)" by simp
  then have "z < int B" by (simp only: of_int_less_iff)
  moreover have "0 < B" by (simp add: B_def)
  ultimately have "nat z < B" by linarith
  then show ?thesis unfolding B_def by (rule floorlog_leI) simp_all
qed

lemma magnitude10_bounds:
  assumes "small_exp m"
  shows "- 323 \<le> magnitude 10 m \<and> magnitude 10 m \<le> 309"
proof (cases "1 \<le> m")
  case True
  with assms have upper: "m < 2 ^ 1024" unfolding small_exp_def by linarith
  have lower: "of_int \<lfloor>m\<rfloor> \<le> m" by simp
  have "(2::nat) ^ 1024 \<le> 10 ^ 309" by simp
  with lower upper have "floorlog 10 (nat \<lfloor>m\<rfloor>) \<le> 309" by (rule floorlog10_le)
  with True show ?thesis by (simp add: magnitude_def)
next
  case False
  have "floorlog 10 (nat (\<lceil>1 / m\<rceil> - 1)) \<le> 324"
  proof (cases "0 < m")
    case True
    with assms have "1 / 2 ^ 1074 \<le> m" unfolding small_exp_def by linarith
    with True have "1 / m \<le> 2 ^ 1074" by (simp add: field_simps)
    moreover have "of_int (\<lceil>1 / m\<rceil> - 1) < 1 / m" by linarith
    ultimately have upper: "of_int (\<lceil>1 / m\<rceil> - 1) < (2::rat) ^ 1074" by linarith
    have lower: "(of_int (\<lceil>1 / m\<rceil> - 1) :: rat) \<le> of_int (\<lceil>1 / m\<rceil> - 1)" by simp
    have "(2::nat) ^ 1074 \<le> 10 ^ 324" by simp
    with lower upper show ?thesis by (rule floorlog10_le)
  next
    case False
    then have "1 / m \<le> of_int 0" by (simp add: divide_le_0_iff)
    then have "\<lceil>1 / m\<rceil> \<le> 0" by (rule ceiling_le)
    then have "\<lceil>1 / m\<rceil> - 1 \<le> 0" by linarith
    then have "nat (\<lceil>1 / m\<rceil> - 1) = 0" by (rule nat_0_iff [THEN iffD2])
    then show ?thesis by (simp only: floorlog_def) simp
  qed
  with False show ?thesis by (simp add: magnitude_def)
qed


lemma length_digits_of [simp]: "length (digits_of k s) = k"
  by (simp add: digits_of_def)

lemma length_js [simp]: "length (js s) = length s"
  by (simp add: js_def)

lemma length_decimal: "n < 1000 \<Longrightarrow> length (decimal n) \<le> 3"
  by (simp add: decimal_def floorlog_le_iff)

lemma first_digits_mem: "first_digits x n ks = Some (k, s) \<Longrightarrow> k \<in> set ks"
  by (induction ks) (auto split: option.splits)

lemma shortest_shape:
  assumes "shortest x = (n, k, s)"
  shows "k \<le> 17 \<and> (n = magnitude 10 x \<or> n = magnitude 10 x + 1)"
proof -
  define counts :: "nat list"
    where "counts = [1, 2, 3, 4, 5, 6, 7, 8, 9, 10, 11, 12, 13, 14, 15, 16]"
  define found where "found = first_digits x (magnitude 10 x) counts"
  define pair where "pair = (case found of Some ks \<Rightarrow> ks
     | None \<Rightarrow> (17, nat (round_half_even (x / ipow 10 (magnitude 10 x - 17)))))"
  have sh: "shortest x = normalise (magnitude 10 x) pair"
    by (simp add: shortest_def pair_def found_def counts_def)
  have "fst pair \<le> 17"
  proof (cases found)
    case None
    then show ?thesis by (simp add: pair_def)
  next
    case (Some ks)
    then have "first_digits x (magnitude 10 x) counts = Some (fst ks, snd ks)"
      by (simp add: found_def)
    then have "fst ks \<in> set counts" by (rule first_digits_mem)
    then have "fst ks \<le> 17" unfolding counts_def by auto
    with Some show ?thesis by (simp add: pair_def)
  qed
  with assms sh show ?thesis by (cases pair) (auto split: if_splits)
qed

lemma length_render:
  assumes "k \<le> 17" "- 323 \<le> n" "n \<le> 310"
  shows "length (render (n, k, s)) \<le> 24"
proof -
  have "nat \<bar>n - 1\<bar> < 1000" using assms by linarith
  then have "length (decimal (nat \<bar>n - 1\<bar>)) \<le> 3" by (rule length_decimal)
  with assms show ?thesis by (auto simp: exponential_def)
qed

lemma length_toString: "bounded x \<Longrightarrow> length (toString x) \<le> 25"
proof (cases x)
  case NaN
  then show ?thesis by simp
next
  case (Inf s)
  then show ?thesis by simp
next
  case (Fin s m)
  assume "bounded x"
  with Fin have small: "small_exp m" by simp
  obtain n k d where sh: "shortest m = (n, k, d)" by (cases "shortest m")
  from sh have "k \<le> 17" "n = magnitude 10 m \<or> n = magnitude 10 m + 1"
    using shortest_shape by blast+
  with magnitude10_bounds [OF small] have "k \<le> 17" "- 323 \<le> n" "n \<le> 310" by auto
  then have "length (render (n, k, d)) \<le> 24" by (rule length_render)
  with Fin sh show ?thesis by (simp del: render.simps)
qed

lemma split_on_nonempty [simp]: "split_on c s \<noteq> []"
  by (induction s) (simp_all add: Let_def)

lemma split_on_piece_length: "p \<in> set (split_on c s) \<Longrightarrow> length p \<le> length s"
proof (induction s arbitrary: p)
  case Nil
  then show ?case by simp
next
  case (Cons a s)
  obtain q qs where q: "split_on c s = q # qs" by (cases "split_on c s") simp_all
  from Cons.IH q have "length q \<le> length s" "\<And>r. r \<in> set qs \<Longrightarrow> length r \<le> length s"
    by auto
  with Cons.prems q show ?case by (fastforce simp: Let_def le_Suc_eq split: if_splits)
qed

lemma index_length: "index (split_on c s) i = Some d \<Longrightarrow> length d \<le> length s"
  by (auto simp: index_def split: if_splits intro!: split_on_piece_length nth_mem)

lemma format_toFixed:
  "format val precision =
     toFixed (rounded val precision)
       (max precision (fraction_length (toString (rounded val precision))))"
proof -
  have "(case d of None \<Rightarrow> precision
          | Some d \<Rightarrow> if d \<noteq> [] \<and> precision < length d then length d else precision)
        = max precision (case d of None \<Rightarrow> 0 | Some d \<Rightarrow> length d)" for d :: "jsstring option"
    by (cases d) (auto simp: max_def)
  then show ?thesis
    by (simp only: format_def rounded_def fraction_length_def Let_def)
qed

lemma fraction_length_le: "fraction_length s \<le> length s"
  by (auto simp: fraction_length_def split: option.splits dest: index_length)

lemma format_returns_iff: "(\<exists>s. format val precision = Inr s) \<longleftrightarrow> precision \<le> 100"
proof -
  have "bounded (rounded val precision)" by (simp add: rounded_def divide_bounded)
  then have "length (toString (rounded val precision)) \<le> 25" by (rule length_toString)
  with fraction_length_le [of "toString (rounded val precision)"]
  have "fraction_length (toString (rounded val precision)) \<le> 25" by linarith
  then show ?thesis
    unfolding format_toFixed by (auto simp del: toString.simps split: number.splits)
qed

lemma format_throws: "100 < precision \<Longrightarrow> format val precision = Inl RangeError"
  unfolding format_toFixed by (simp add: less_max_iff_disj)

lemma fraction_length_rounded:
  "fraction_length (toString (rounded val precision)) \<le> 25"
proof -
  have "bounded (rounded val precision)" by (simp add: rounded_def divide_bounded)
  then have "length (toString (rounded val precision)) \<le> 25" by (rule length_toString)
  with fraction_length_le [of "toString (rounded val precision)"] show ?thesis by linarith
qed

text \<open>
  Claim C2, as the code has it. With \<open>r = Math.round(val * 10**precision) / 10**precision\<close>
  in Number arithmetic and \<open>d\<close> the number of code units after the first point of
  \<open>r.toString()\<close> (0 without a point): for a precision above 100 \<open>format\<close> throws a
  RangeError; otherwise it returns the fixed-point notation of \<open>r\<close> with
  \<open>max(precision, d)\<close> fraction digits when \<open>r\<close> is finite and below \<open>10 ^ 21\<close> in
  magnitude, and \<open>r.toString()\<close> when \<open>r\<close> is larger or not finite.
\<close>

theorem format_fixed_point:
  "format val precision =
     (if 100 < precision then Inl RangeError
      else Inr (case rounded val precision of
                  Fin s m \<Rightarrow>
                    if m < 10 ^ 21
                    then fixed_point s m
                           (max precision (fraction_length (toString (Fin s m))))
                    else toString (Fin s m)
                | x \<Rightarrow> toString x))"
proof (cases "100 < precision")
  case True
  then show ?thesis by (simp add: format_throws)
next
  case False
  with fraction_length_rounded [of val precision]
  have len: "\<not> 100 < max precision (fraction_length (toString (rounded val precision)))"
    by (simp add: less_max_iff_disj)
  show ?thesis
  proof (cases "rounded val precision")
    case NaN
    with False len show ?thesis unfolding format_toFixed by simp
  next
    case (Inf s)
    with False len show ?thesis unfolding format_toFixed by simp
  next
    case (Fin s m)
    have "10 ^ 21 \<le> m \<Longrightarrow> m \<noteq> 0" by auto
    with Fin False len show ?thesis
      unfolding format_toFixed by (auto simp: fixed_point_def not_less)
  qed
qed

lemma rounded_1e21: "rounded (number_of (10 ^ 21)) 0 = Fin False (10 ^ 21)"
  by (simp add: rounded_def number_eval)

lemma fixed_point_1e21: "fixed_point False (10 ^ 21) 0 = js ''1000000000000000000000''"
  by (simp add: fixed_point_def number_eval)


text \<open>
  Claim C2 as stated fails: \<open>format(1, 101)\<close> throws instead of returning a string, and
  \<open>format(1e21, 0)\<close> returns the exponential notation \<open>"1e+21"\<close>, where the fixed-point
  notation of \<open>r = 1e21\<close> with no fraction digits is a one and 21 zeros.
\<close>

theorem format_beyond_fixed_point:
  "format (number_of 1) 101 = Inl RangeError
   \<and> rounded (number_of (10 ^ 21)) 0 = Fin False (10 ^ 21)
   \<and> format (number_of (10 ^ 21)) 0 = Inr (js ''1e+21'')
   \<and> fixed_point False (10 ^ 21) (max 0 (fraction_length (js ''1e+21'')))
       = js ''1000000000000000000000''"
proof -
  have "format (number_of 1) 101 = Inl RangeError" by (simp add: format_throws)
  moreover have "fraction_length (js ''1e+21'') = 0"
    by (simp add: fraction_length_def index_def js_def)
  ultimately show ?thesis
    using rounded_1e21 format_1e21 fixed_point_1e21 by simp
qed

section \<open>Properties of the reading updater\<close>

lemma format_formatted: "precision \<le> 100 \<Longrightarrow> format v precision = Inr (formatted v precision)"
  using format_returns_iff [of v precision] by (auto simp: formatted_def)

lemma show_formatted_display:
  assumes "elements w ident \<noteq> None" "precision \<le> 100"
  shows "show_formatted ident v precision w =
           Returned (w\<lparr>elements := (elements w)(ident \<mapsto> formatted v precision)\<rparr>)"
  using assms by (simp add: show_formatted_def set_textContent_def format_formatted)

lemma if_Ok_reading:
  "if_Ok key r w body =
     (case field_reading r key of
        Some None \<Rightarrow> Returned w
      | Some (Some v) \<Rightarrow> body (Num v)
      | None \<Rightarrow> if_Ok key r w body)"
  by (auto simp: if_Ok_def field_reading_def split: sum.splits jsvalue.splits option.splits)

lemma reading_pH_effect:
  assumes "field_reading r (js ''pH'') = Some x" "elements w (js ''ph-reading'') \<noteq> None"
  shows "reading_pH coerce r w =
           Returned (case x of None \<Rightarrow> w
             | Some v \<Rightarrow> w\<lparr>elements := (elements w)(js ''ph-reading'' \<mapsto> formatted v 1)\<rparr>)"
  using assms unfolding reading_pH_def
  by (subst if_Ok_reading) (simp add: show_formatted_display split: option.splits)

lemma reading_T_effect:
  assumes "field_reading r (js ''T'') = Some x" "elements w (js ''temp-reading'') \<noteq> None"
  shows "reading_T coerce r w =
           Returned (case x of None \<Rightarrow> w
             | Some v \<Rightarrow> w\<lparr>elements := (elements w)(js ''temp-reading'' \<mapsto> formatted v 1)\<rparr>)"
  using assms unfolding reading_T_def
  by (subst if_Ok_reading) (simp add: show_formatted_display split: option.splits)

lemma reading_ec_effect:
  assumes "field_reading r (js ''ec'') = Some x" "elements w (js ''ec-reading'') \<noteq> None"
  shows "reading_ec coerce r w =
           Returned (case x of None \<Rightarrow> w
             | Some v \<Rightarrow> w\<lparr>elements := (elements w)(js ''ec-reading'' \<mapsto>
                          formatted (multiply v (number_of 1000000)) 0)\<rparr>)"
  using assms unfolding reading_ec_def
  by (subst if_Ok_reading) (simp add: show_formatted_display split: option.splits)

lemma reading_ORP_effect:
  assumes "field_reading r (js ''ORP'') = Some x" "elements w (js ''orp-reading'') \<noteq> None"
  shows "reading_ORP coerce r w =
           Returned (case x of None \<Rightarrow> w
             | Some v \<Rightarrow> w\<lparr>elements := (elements w)(js ''orp-reading'' \<mapsto> formatted v 0),
                           globals := (globals w)(js ''disp'' \<mapsto> Num v)\<rparr>)"
  using assms unfolding reading_ORP_def
  by (subst if_Ok_reading)
     (simp add: show_formatted_display assign_disp_def split: option.splits)


lemma display_ids_distinct:
  "js ''ph-reading'' \<noteq> js ''temp-reading''" "js ''ph-reading'' \<noteq> js ''ec-reading''"
  "js ''ph-reading'' \<noteq> js ''orp-reading''" "js ''temp-reading'' \<noteq> js ''ec-reading''"
  "js ''temp-reading'' \<noteq> js ''orp-reading''" "js ''ec-reading'' \<noteq> js ''orp-reading''"
  "js ''temp-reading'' \<noteq> js ''ph-reading''" "js ''ec-reading'' \<noteq> js ''ph-reading''"
  "js ''orp-reading'' \<noteq> js ''ph-reading''" "js ''ec-reading'' \<noteq> js ''temp-reading''"
  "js ''orp-reading'' \<noteq> js ''temp-reading''" "js ''orp-reading'' \<noteq> js ''ec-reading''"
  by (simp_all add: js_def)

lemma handler_effect:
  assumes "has_displays w"
    and "field_reading r (js ''pH'') = Some a" and "field_reading r (js ''T'') = Some b"
    and "field_reading r (js ''ec'') = Some c" and "field_reading r (js ''ORP'') = Some d"
  shows "\<exists>w'. handler coerce r w = Returned w'
     \<and> elements w' (js ''ph-reading'') = shown a 1 (elements w (js ''ph-reading''))
     \<and> elements w' (js ''temp-reading'') = shown b 1 (elements w (js ''temp-reading''))
     \<and> elements w' (js ''ec-reading'') =
           shown (map_option (\<lambda>v. multiply v (number_of 1000000)) c) 0
             (elements w (js ''ec-reading''))
     \<and> elements w' (js ''orp-reading'') = shown d 0 (elements w (js ''orp-reading''))
     \<and> (\<forall>ident. \<not> is_display ident \<longrightarrow> elements w' ident = elements w ident)
     \<and> globals w' = (case d of None \<Rightarrow> globals w
                        | Some v \<Rightarrow> (globals w)(js ''disp'' \<mapsto> Num v))
     \<and> requests w' = requests w \<and> cookie w' = cookie w"
proof -
  define w1 where "w1 = (case a of None \<Rightarrow> w
     | Some v \<Rightarrow> w\<lparr>elements := (elements w)(js ''ph-reading'' \<mapsto> formatted v 1)\<rparr>)"
  define w2 where "w2 = (case b of None \<Rightarrow> w1
     | Some v \<Rightarrow> w1\<lparr>elements := (elements w1)(js ''temp-reading'' \<mapsto> formatted v 1)\<rparr>)"
  define w3 where "w3 = (case c of None \<Rightarrow> w2
     | Some v \<Rightarrow> w2\<lparr>elements := (elements w2)(js ''ec-reading'' \<mapsto>
                  formatted (multiply v (number_of 1000000)) 0)\<rparr>)"
  define w4 where "w4 = (case d of None \<Rightarrow> w3
     | Some v \<Rightarrow> w3\<lparr>elements := (elements w3)(js ''orp-reading'' \<mapsto> formatted v 0),
                   globals := (globals w3)(js ''disp'' \<mapsto> Num v)\<rparr>)"
  from assms(1) have e0: "elements w (js ''ph-reading'') \<noteq> None"
    "elements w (js ''temp-reading'') \<noteq> None" "elements w (js ''ec-reading'') \<noteq> None"
    "elements w (js ''orp-reading'') \<noteq> None"
    by (simp_all add: has_displays_def)
  have s1: "reading_pH coerce r w = Returned w1"
    unfolding w1_def using assms(2) e0(1) by (rule reading_pH_effect)
  have e1: "elements w1 (js ''temp-reading'') \<noteq> None"
    using e0 by (simp add: w1_def display_ids_distinct split: option.splits)
  have s2: "reading_T coerce r w1 = Returned w2"
    unfolding w2_def using assms(3) e1 by (rule reading_T_effect)
  have e2: "elements w2 (js ''ec-reading'') \<noteq> None"
    using e0 by (simp add: w1_def w2_def display_ids_distinct split: option.splits)
  have s3: "reading_ec coerce r w2 = Returned w3"
    unfolding w3_def using assms(4) e2 by (rule reading_ec_effect)
  have e3: "elements w3 (js ''orp-reading'') \<noteq> None"
    using e0 by (simp add: w1_def w2_def w3_def display_ids_distinct split: option.splits)
  have s4: "reading_ORP coerce r w3 = Returned w4"
    unfolding w4_def using assms(5) e3 by (rule reading_ORP_effect)
  have h: "handler coerce r w = Returned w4"
    by (simp add: handler_def and_then_def s1 s2 s3 s4)
  have "elements w4 (js ''ph-reading'') = shown a 1 (elements w (js ''ph-reading''))"
    "elements w4 (js ''temp-reading'') = shown b 1 (elements w (js ''temp-reading''))"
    "elements w4 (js ''ec-reading'') =
       shown (map_option (\<lambda>v. multiply v (number_of 1000000)) c) 0
         (elements w (js ''ec-reading''))"
    "elements w4 (js ''orp-reading'') = shown d 0 (elements w (js ''orp-reading''))"
    "\<forall>ident. \<not> is_display ident \<longrightarrow> elements w4 ident = elements w ident"
    "globals w4 = (case d of None \<Rightarrow> globals w
                   | Some v \<Rightarrow> (globals w)(js ''disp'' \<mapsto> Num v))"
    "requests w4 = requests w" "cookie w4 = cookie w"
    by (simp_all add: w1_def w2_def w3_def w4_def shown_def is_display_def display_ids_distinct
          split: option.splits)
  with h show ?thesis by blast
qed


lemmas response_eval =
  field_reading_def absent_def has_displays_def page_def ok_def example_response_def
  others_def pH_error_response_def pH_null_response_def pH_shadowed_response_def
  pH_only_response_def js_def

lemma example_fields:
  "field_reading example_response (js ''pH'') = Some (Some (number_of (701 / 100)))"
  "field_reading example_response (js ''T'') = Some (Some (number_of 25))"
  "field_reading example_response (js ''ec'') = Some (Some (number_of (15 / 10000)))"
  "field_reading example_response (js ''ORP'') = Some (Some (number_of (1502 / 10)))"
  by (simp_all add: response_eval)

lemma pH_error_fields:
  "field_reading pH_error_response (js ''pH'') = Some None"
  "field_reading pH_error_response (js ''T'') = Some (Some (number_of 25))"
  "field_reading pH_error_response (js ''ec'') = Some (Some (number_of (15 / 10000)))"
  "field_reading pH_error_response (js ''ORP'') = Some (Some (number_of (1502 / 10)))"
  by (simp_all add: response_eval)

lemma has_displays_page: "has_displays page"
  by (simp add: response_eval)

lemma page_texts:
  "elements page (js ''ph-reading'') = Some (js ''--'')"
  "elements page (js ''temp-reading'') = Some (js ''--'')"
  "elements page (js ''ec-reading'') = Some (js ''--'')"
  "elements page (js ''orp-reading'') = Some (js ''--'')"
  by (simp_all add: response_eval)

lemma example_formatted:
  "formatted (number_of (701 / 100)) 1 = js ''7.0''"
  "formatted (number_of 25) 1 = js ''25.0''"
  "formatted (multiply (number_of (15 / 10000)) (number_of 1000000)) 0 = js ''1500''"
  "formatted (number_of (1502 / 10)) 0 = js ''150''"
  unfolding formatted_def format_7_01 format_25 format_ec format_150_2 by simp_all

text \<open>
  Claim C1, as the code has it. On a page that has the four display elements, for every
  response whose fields \<open>pH\<close>, \<open>T\<close>, \<open>ec\<close> and \<open>ORP\<close> pass the test
  \<open>hasOwnProperty('Ok')\<close> with a number as payload, the handler returns and has written
  \<open>format(pH, 1)\<close> to \<open>ph-reading\<close>, \<open>format(T, 1)\<close> to \<open>temp-reading\<close>,
  \<open>format(ec * 1000000, 0)\<close> to \<open>ec-reading\<close> and \<open>format(ORP, 0)\<close> to \<open>orp-reading\<close>;
  for the response of the example the four texts are \<open>7.0\<close>, \<open>25.0\<close>, \<open>1500\<close> and
  \<open>150\<close>. The hypothesis \<open>field_reading r key = Some (Some v)\<close> leaves out a field that
  has an own property named \<open>hasOwnProperty\<close>.
\<close>

theorem handler_writes_formatted_readings:
  assumes "has_displays w"
  shows "(field_reading r (js ''pH'') = Some (Some pH)
          \<and> field_reading r (js ''T'') = Some (Some T)
          \<and> field_reading r (js ''ec'') = Some (Some ec)
          \<and> field_reading r (js ''ORP'') = Some (Some ORP)
          \<longrightarrow> (\<exists>w'. handler coerce r w = Returned w'
                 \<and> format pH 1 = Inr (formatted pH 1)
                 \<and> elements w' (js ''ph-reading'') = Some (formatted pH 1)
                 \<and> format T 1 = Inr (formatted T 1)
                 \<and> elements w' (js ''temp-reading'') = Some (formatted T 1)
                 \<and> format (multiply ec (number_of 1000000)) 0
                     = Inr (formatted (multiply ec (number_of 1000000)) 0)
                 \<and> elements w' (js ''ec-reading'')
                     = Some (formatted (multiply ec (number_of 1000000)) 0)
                 \<and> format ORP 0 = Inr (formatted ORP 0)
                 \<and> elements w' (js ''orp-reading'') = Some (formatted ORP 0)))
         \<and> (\<exists>w'. handler coerce example_response w = Returned w'
                 \<and> elements w' (js ''ph-reading'') = Some (js ''7.0'')
                 \<and> elements w' (js ''temp-reading'') = Some (js ''25.0'')
                 \<and> elements w' (js ''ec-reading'') = Some (js ''1500'')
                 \<and> elements w' (js ''orp-reading'') = Some (js ''150''))"
proof (intro conjI impI)
  assume fields: "field_reading r (js ''pH'') = Some (Some pH)
          \<and> field_reading r (js ''T'') = Some (Some T)
          \<and> field_reading r (js ''ec'') = Some (Some ec)
          \<and> field_reading r (js ''ORP'') = Some (Some ORP)"
  with assms obtain w' where "handler coerce r w = Returned w'"
    "elements w' (js ''ph-reading'') = shown (Some pH) 1 (elements w (js ''ph-reading''))"
    "elements w' (js ''temp-reading'') = shown (Some T) 1 (elements w (js ''temp-reading''))"
    "elements w' (js ''ec-reading'') =
       shown (map_option (\<lambda>v. multiply v (number_of 1000000)) (Some ec)) 0
         (elements w (js ''ec-reading''))"
    "elements w' (js ''orp-reading'') = shown (Some ORP) 0 (elements w (js ''orp-reading''))"
    using handler_effect [of w r "Some pH" "Some T" "Some ec" "Some ORP" coerce] by blast
  then show "\<exists>w'. handler coerce r w = Returned w'
                 \<and> format pH 1 = Inr (formatted pH 1)
                 \<and> elements w' (js ''ph-reading'') = Some (formatted pH 1)
                 \<and> format T 1 = Inr (formatted T 1)
                 \<and> elements w' (js ''temp-reading'') = Some (formatted T 1)
                 \<and> format (multiply ec (number_of 1000000)) 0
                     = Inr (formatted (multiply ec (number_of 1000000)) 0)
                 \<and> elements w' (js ''ec-reading'')
                     = Some (formatted (multiply ec (number_of 1000000)) 0)
                 \<and> format ORP 0 = Inr (formatted ORP 0)
                 \<and> elements w' (js ''orp-reading'') = Some (formatted ORP 0)"
    by (simp add: shown_def format_formatted)
next
  from assms example_fields obtain w' where "handler coerce example_response w = Returned w'"
    "elements w' (js ''ph-reading'') =
       shown (Some (number_of (701 / 100))) 1 (elements w (js ''ph-reading''))"
    "elements w' (js ''temp-reading'') =
       shown (Some (number_of 25)) 1 (elements w (js ''temp-reading''))"
    "elements w' (js ''ec-reading'') =
       shown (map_option (\<lambda>v. multiply v (number_of 1000000)) (Some (number_of (15 / 10000)))) 0
         (elements w (js ''ec-reading''))"
    "elements w' (js ''orp-reading'') =
       shown (Some (number_of (1502 / 10))) 0 (elements w (js ''orp-reading''))"
    using handler_effect [of w example_response "Some (number_of (701 / 100))"
        "Some (number_of 25)" "Some (number_of (15 / 10000))" "Some (number_of (1502 / 10))" coerce]
    by blast
  then show "\<exists>w'. handler coerce example_response w = Returned w'
                 \<and> elements w' (js ''ph-reading'') = Some (js ''7.0'')
                 \<and> elements w' (js ''temp-reading'') = Some (js ''25.0'')
                 \<and> elements w' (js ''ec-reading'') = Some (js ''1500'')
                 \<and> elements w' (js ''orp-reading'') = Some (js ''150'')"
    unfolding shown_def option.map option.case example_formatted by blast
qed

text \<open>Claim C1 at the response of the example, on the example page.\<close>

theorem handler_writes_formatted_readings_witness:
  "has_displays page
   \<and> field_reading example_response (js ''pH'') = Some (Some (number_of (701 / 100)))
   \<and> field_reading example_response (js ''T'') = Some (Some (number_of 25))
   \<and> field_reading example_response (js ''ec'') = Some (Some (number_of (15 / 10000)))
   \<and> field_reading example_response (js ''ORP'') = Some (Some (number_of (1502 / 10)))
   \<and> (\<exists>w'. handler to_NaN example_response page = Returned w'
          \<and> elements w' (js ''ph-reading'') = Some (formatted (number_of (701 / 100)) 1)
          \<and> elements w' (js ''temp-reading'') = Some (formatted (number_of 25) 1)
          \<and> elements w' (js ''ec-reading'')
              = Some (formatted (multiply (number_of (15 / 10000)) (number_of 1000000)) 0)
          \<and> elements w' (js ''orp-reading'') = Some (formatted (number_of (1502 / 10)) 0))"
  using handler_writes_formatted_readings [OF has_displays_page, of example_response
      "number_of (701 / 100)" "number_of 25" "number_of (15 / 10000)" "number_of (1502 / 10)" to_NaN]
    has_displays_page example_fields
  by blast

text \<open>
  Claim C1 as stated fails: the field \<open>pH\<close> of this response carries \<open>Ok\<close> with a
  number, and it also has an own property named \<open>hasOwnProperty\<close>. The call
  \<open>r.pH.hasOwnProperty('Ok')\<close> finds that property, which is not a function, and throws;
  nothing is written.
\<close>

theorem handler_throws_on_shadowed_hasOwnProperty:
  "handler to_NaN pH_shadowed_response page = Threw TypeError page
   \<and> member pH_shadowed_response (js ''pH'')
       = Inr (Obj [(js ''Ok'', Num (number_of (701 / 100))), (js ''hasOwnProperty'', Null)])
   \<and> elements page (js ''ph-reading'') = Some (js ''--'')"
  by (simp add: handler_def and_then_def reading_pH_def if_Ok_def response_eval)

lemma absent_if_Ok: "absent r key \<Longrightarrow> if_Ok key r w body = Threw TypeError w"
  by (cases r) (simp_all add: absent_def if_Ok_def)

lemma untouched_refl [simp]: "untouched w w"
  by (simp add: untouched_def)

lemma untouched_trans: "untouched w w1 \<Longrightarrow> untouched w1 w2 \<Longrightarrow> untouched w w2"
  by (simp add: untouched_def)

lemma untouched_assign_disp [simp]: "untouched w (assign_disp v w)"
  by (simp add: untouched_def assign_disp_def)

lemma show_formatted_untouched:
  "is_display ident \<Longrightarrow> untouched w (world_of (show_formatted ident v p w))"
  by (auto simp: show_formatted_def set_textContent_def untouched_def split: sum.splits)

lemma show_formatted_assign_untouched:
  "is_display ident \<Longrightarrow>
     untouched w (world_of (show_formatted ident v p (assign_disp x w)))"
  by (rule untouched_trans [OF untouched_assign_disp show_formatted_untouched])

lemma if_Ok_untouched:
  assumes "\<And>payload. untouched w (world_of (body payload))"
  shows "untouched w (world_of (if_Ok key r w body))"
  using assms by (auto simp: if_Ok_def split: sum.splits)

lemma is_display_ids [simp]:
  "is_display (js ''ph-reading'')" "is_display (js ''temp-reading'')"
  "is_display (js ''ec-reading'')" "is_display (js ''orp-reading'')"
  by (simp_all add: is_display_def)

lemma reading_untouched:
  "untouched w (world_of (reading_pH coerce r w))"
  "untouched w (world_of (reading_T coerce r w))"
  "untouched w (world_of (reading_ec coerce r w))"
  "untouched w (world_of (reading_ORP coerce r w))"
  unfolding reading_pH_def reading_T_def reading_ec_def reading_ORP_def
  by (rule if_Ok_untouched;
      auto split: sum.splits
           intro: show_formatted_untouched show_formatted_assign_untouched)+

lemma and_then_threw:
  "threw x \<or> (\<forall>w. threw (f w)) \<Longrightarrow> threw (and_then x f)"
  by (cases x) (auto simp: and_then_def)

lemma absent_reading_threw:
  "absent r (js ''pH'') \<Longrightarrow> threw (reading_pH coerce r w)"
  "absent r (js ''T'') \<Longrightarrow> threw (reading_T coerce r w)"
  "absent r (js ''ec'') \<Longrightarrow> threw (reading_ec coerce r w)"
  "absent r (js ''ORP'') \<Longrightarrow> threw (reading_ORP coerce r w)"
  by (simp_all add: reading_pH_def reading_T_def reading_ec_def reading_ORP_def absent_if_Ok)

lemma handler_threw:
  assumes "absent r (js ''pH'') \<or> absent r (js ''T'') \<or> absent r (js ''ec'')
           \<or> absent r (js ''ORP'')"
  shows "threw (handler coerce r w)"
  using assms unfolding handler_def
  by (auto intro!: and_then_threw simp: absent_reading_threw)

lemma threw_world: "threw x \<Longrightarrow> \<exists>e. x = Threw e (world_of x)"
  by (cases x) simp_all

lemma shown_twice:
  "x = old \<or> x = shown reading p old \<Longrightarrow> y = x \<or> y = shown reading p x
     \<Longrightarrow> y = old \<or> y = shown reading p old"
  by (auto simp: shown_def split: option.splits)

lemma only_readingsD:
  assumes "only_readings coerce r w w'"
  shows "requests w' = requests w" "cookie w' = cookie w"
    "\<forall>ident. \<not> is_display ident \<longrightarrow> elements w' ident = elements w ident"
    "elements w' (js ''ph-reading'') = elements w (js ''ph-reading'')
       \<or> elements w' (js ''ph-reading'')
           = shown (number_reading coerce r (js ''pH'')) 1 (elements w (js ''ph-reading''))"
    "elements w' (js ''temp-reading'') = elements w (js ''temp-reading'')
       \<or> elements w' (js ''temp-reading'')
           = shown (number_reading coerce r (js ''T'')) 1 (elements w (js ''temp-reading''))"
    "elements w' (js ''ec-reading'') = elements w (js ''ec-reading'')
       \<or> elements w' (js ''ec-reading'')
           = shown (map_option (\<lambda>v. multiply v (number_of 1000000))
                      (number_reading coerce r (js ''ec''))) 0
               (elements w (js ''ec-reading''))"
    "elements w' (js ''orp-reading'') = elements w (js ''orp-reading'')
       \<or> elements w' (js ''orp-reading'')
           = shown (number_reading coerce r (js ''ORP'')) 0 (elements w (js ''orp-reading''))"
  using assms unfolding only_readings_def by blast+

lemma only_readings_refl [simp]: "only_readings coerce r w w"
  by (simp add: only_readings_def)

lemma only_readings_trans:
  assumes "only_readings coerce r w w1" "only_readings coerce r w1 w2"
  shows "only_readings coerce r w w2"
proof -
  note a = assms [unfolded only_readings_def]
  show ?thesis
    unfolding only_readings_def
  proof (intro conjI)
    show "\<forall>ident. \<not> is_display ident \<longrightarrow> elements w2 ident = elements w ident"
      using a by simp
    show "requests w2 = requests w" "cookie w2 = cookie w"
      using a by simp_all
  qed (rule shown_twice [of "elements w1 d" for d]; use a in blast)+
qed

lemma show_formatted_elements:
  "elements (world_of (show_formatted ident v p w)) = elements w
   \<or> elements (world_of (show_formatted ident v p w)) = (elements w)(ident \<mapsto> formatted v p)"
  by (auto simp: show_formatted_def set_textContent_def formatted_def split: sum.splits)

lemma show_formatted_assign_elements:
  "elements (world_of (show_formatted ident v p (assign_disp x w))) = elements w
   \<or> elements (world_of (show_formatted ident v p (assign_disp x w)))
       = (elements w)(ident \<mapsto> formatted v p)"
  using show_formatted_elements [of ident v p "assign_disp x w"]
  by (simp add: assign_disp_def)

lemma reading_elements:
  "elements (world_of (reading_pH coerce r w)) = elements w
   \<or> (\<exists>v. number_reading coerce r (js ''pH'') = Some v
          \<and> elements (world_of (reading_pH coerce r w))
              = (elements w)(js ''ph-reading'' \<mapsto> formatted v 1))"
  "elements (world_of (reading_T coerce r w)) = elements w
   \<or> (\<exists>v. number_reading coerce r (js ''T'') = Some v
          \<and> elements (world_of (reading_T coerce r w))
              = (elements w)(js ''temp-reading'' \<mapsto> formatted v 1))"
  "elements (world_of (reading_ec coerce r w)) = elements w
   \<or> (\<exists>v. number_reading coerce r (js ''ec'') = Some v
          \<and> elements (world_of (reading_ec coerce r w))
              = (elements w)(js ''ec-reading'' \<mapsto>
                   formatted (multiply v (number_of 1000000)) 0))"
  "elements (world_of (reading_ORP coerce r w)) = elements w
   \<or> (\<exists>v. number_reading coerce r (js ''ORP'') = Some v
          \<and> elements (world_of (reading_ORP coerce r w))
              = (elements w)(js ''orp-reading'' \<mapsto> formatted v 0))"
proof -
  show "elements (world_of (reading_pH coerce r w)) = elements w
   \<or> (\<exists>v. number_reading coerce r (js ''pH'') = Some v
          \<and> elements (world_of (reading_pH coerce r w))
              = (elements w)(js ''ph-reading'' \<mapsto> formatted v 1))"
    using show_formatted_elements [of "js ''ph-reading''" _ 1 w]
    by (auto simp: reading_pH_def if_Ok_def number_reading_def split: sum.splits)
  show "elements (world_of (reading_T coerce r w)) = elements w
   \<or> (\<exists>v. number_reading coerce r (js ''T'') = Some v
          \<and> elements (world_of (reading_T coerce r w))
              = (elements w)(js ''temp-reading'' \<mapsto> formatted v 1))"
    using show_formatted_elements [of "js ''temp-reading''" _ 1 w]
    by (auto simp: reading_T_def if_Ok_def number_reading_def split: sum.splits)
  show "elements (world_of (reading_ec coerce r w)) = elements w
   \<or> (\<exists>v. number_reading coerce r (js ''ec'') = Some v
          \<and> elements (world_of (reading_ec coerce r w))
              = (elements w)(js ''ec-reading'' \<mapsto>
                   formatted (multiply v (number_of 1000000)) 0))"
    using show_formatted_elements [of "js ''ec-reading''" _ 0 w]
    by (auto simp: reading_ec_def if_Ok_def number_reading_def split: sum.splits)
  show "elements (world_of (reading_ORP coerce r w)) = elements w
   \<or> (\<exists>v. number_reading coerce r (js ''ORP'') = Some v
          \<and> elements (world_of (reading_ORP coerce r w))
              = (elements w)(js ''orp-reading'' \<mapsto> formatted v 0))"
    using show_formatted_assign_elements [of "js ''orp-reading''" _ 0 _ w]
    by (auto simp: reading_ORP_def if_Ok_def number_reading_def assign_disp_def
          split: sum.splits)
qed

lemma only_readings_elements:
  assumes "untouched w w'"
    and "elements w' = elements w
      \<or> (\<exists>v. number_reading coerce r (js ''pH'') = Some v
             \<and> elements w' = (elements w)(js ''ph-reading'' \<mapsto> formatted v 1))
      \<or> (\<exists>v. number_reading coerce r (js ''T'') = Some v
             \<and> elements w' = (elements w)(js ''temp-reading'' \<mapsto> formatted v 1))
      \<or> (\<exists>v. number_reading coerce r (js ''ec'') = Some v
             \<and> elements w' = (elements w)(js ''ec-reading'' \<mapsto>
                   formatted (multiply v (number_of 1000000)) 0))
      \<or> (\<exists>v. number_reading coerce r (js ''ORP'') = Some v
             \<and> elements w' = (elements w)(js ''orp-reading'' \<mapsto> formatted v 0))"
  shows "only_readings coerce r w w'"
  using assms(2)
proof (elim disjE exE conjE)
  assume "elements w' = elements w"
  with assms(1) show ?thesis by (simp add: only_readings_def untouched_def)
next
  fix v assume "number_reading coerce r (js ''pH'') = Some v"
    "elements w' = (elements w)(js ''ph-reading'' \<mapsto> formatted v 1)"
  with assms(1) show ?thesis
    by (simp add: only_readings_def untouched_def shown_def display_ids_distinct)
next
  fix v assume "number_reading coerce r (js ''T'') = Some v"
    "elements w' = (elements w)(js ''temp-reading'' \<mapsto> formatted v 1)"
  with assms(1) show ?thesis
    by (simp add: only_readings_def untouched_def shown_def display_ids_distinct)
next
  fix v assume "number_reading coerce r (js ''ec'') = Some v"
    "elements w' = (elements w)(js ''ec-reading'' \<mapsto>
       formatted (multiply v (number_of 1000000)) 0)"
  with assms(1) show ?thesis
    by (simp add: only_readings_def untouched_def shown_def display_ids_distinct)
next
  fix v assume "number_reading coerce r (js ''ORP'') = Some v"
    "elements w' = (elements w)(js ''orp-reading'' \<mapsto> formatted v 0)"
  with assms(1) show ?thesis
    by (simp add: only_readings_def untouched_def shown_def display_ids_distinct)
qed

lemma reading_only_readings:
  "only_readings coerce r w (world_of (reading_pH coerce r w))"
  "only_readings coerce r w (world_of (reading_T coerce r w))"
  "only_readings coerce r w (world_of (reading_ec coerce r w))"
  "only_readings coerce r w (world_of (reading_ORP coerce r w))"
  using reading_elements [of coerce r w] reading_untouched [of w coerce r]
  by (blast intro: only_readings_elements)+

lemma and_then_only_readings:
  assumes "only_readings coerce r w (world_of x)"
    "\<And>w1. only_readings coerce r w1 (world_of (f w1))"
  shows "only_readings coerce r w (world_of (and_then x f))"
  using assms by (cases x) (auto simp: and_then_def intro: only_readings_trans)

lemma handler_only_readings: "only_readings coerce r w (world_of (handler coerce r w))"
  unfolding handler_def by (intro and_then_only_readings reading_only_readings)

lemma reading_globals:
  "globals (world_of (reading_pH coerce r w)) = globals w"
  "globals (world_of (reading_T coerce r w)) = globals w"
  "globals (world_of (reading_ec coerce r w)) = globals w"
  by (auto simp: reading_pH_def reading_T_def reading_ec_def if_Ok_def
        show_formatted_def set_textContent_def
      split: sum.splits if_splits)

lemma handler_absent_globals:
  assumes "absent r (js ''pH'') \<or> absent r (js ''T'') \<or> absent r (js ''ec'')
           \<or> absent r (js ''ORP'')"
  shows "globals (world_of (handler coerce r w)) = globals w"
proof -
  have g: "globals (world_of (reading_pH coerce r w)) = globals w"
    "\<And>w. globals (world_of (reading_T coerce r w)) = globals w"
    "\<And>w. globals (world_of (reading_ec coerce r w)) = globals w"
    by (rule reading_globals)+
  show ?thesis
  proof (cases "absent r (js ''ORP'')")
    case True
    then have "reading_ORP coerce r w3 = Threw TypeError w3" for w3
      by (simp add: reading_ORP_def absent_if_Ok)
    then show ?thesis
      using g by (auto simp: handler_def and_then_def split: outcome.splits) (metis world_of.simps)+
  next
    case False
    with assms have "threw (reading_pH coerce r w) \<or> (\<forall>w. threw (reading_T coerce r w))
        \<or> (\<forall>w. threw (reading_ec coerce r w))"
      using absent_reading_threw by blast
    then show ?thesis
      using g by (auto simp: handler_def and_then_def split: outcome.splits) (metis world_of.simps threw.simps)+
  qed
qed

lemma absent_number_reading: "absent r key \<Longrightarrow> number_reading coerce r key = None"
  by (cases r) (simp_all add: absent_def number_reading_def)

text \<open>
  Claim C5. For every response that lacks one of the top-level fields \<open>pH\<close>, \<open>T\<close>,
  \<open>ec\<close>, \<open>ORP\<close>, the handler throws, so the promise chain ends rejected, and nothing
  recovers, retries or reports. When \<open>pH\<close> is absent the handler throws a TypeError from
  the very state it was called in. In every case no request is added, the cookie and the
  global variables are as before, no element other than the four displays is changed,
  each display has either its old text or the formatted reading of its own field (the
  write of a statement that ran before the one that threw), and the display of an absent
  field keeps its text. A rejection of \<open>fetch\<close> or of \<open>response.json()\<close> passes through
  the chain with the state unchanged.
\<close>

theorem handler_throws_on_absent_field:
  "(absent r (js ''pH'')
      \<longrightarrow> handler coerce r w = Threw TypeError w
          \<and> settle coerce (Parsed r) w = Threw TypeError w)
   \<and> (absent r (js ''pH'') \<or> absent r (js ''T'') \<or> absent r (js ''ec'')
        \<or> absent r (js ''ORP'')
      \<longrightarrow> (\<exists>e w'. handler coerce r w = Threw e w'
            \<and> settle coerce (Parsed r) w = Threw e w'
            \<and> requests w' = requests w \<and> cookie w' = cookie w \<and> globals w' = globals w
            \<and> (\<forall>ident. \<not> is_display ident \<longrightarrow> elements w' ident = elements w ident)
            \<and> (elements w' (js ''ph-reading'') = elements w (js ''ph-reading'')
               \<or> elements w' (js ''ph-reading'')
                   = shown (number_reading coerce r (js ''pH'')) 1
                       (elements w (js ''ph-reading'')))
            \<and> (elements w' (js ''temp-reading'') = elements w (js ''temp-reading'')
               \<or> elements w' (js ''temp-reading'')
                   = shown (number_reading coerce r (js ''T'')) 1
                       (elements w (js ''temp-reading'')))
            \<and> (elements w' (js ''ec-reading'') = elements w (js ''ec-reading'')
               \<or> elements w' (js ''ec-reading'')
                   = shown (map_option (\<lambda>v. multiply v (number_of 1000000))
                              (number_reading coerce r (js ''ec''))) 0
                       (elements w (js ''ec-reading'')))
            \<and> (elements w' (js ''orp-reading'') = elements w (js ''orp-reading'')
               \<or> elements w' (js ''orp-reading'')
                   = shown (number_reading coerce r (js ''ORP'')) 0
                       (elements w (js ''orp-reading'')))
            \<and> (absent r (js ''pH'')
                 \<longrightarrow> elements w' (js ''ph-reading'') = elements w (js ''ph-reading''))
            \<and> (absent r (js ''T'')
                 \<longrightarrow> elements w' (js ''temp-reading'') = elements w (js ''temp-reading''))
            \<and> (absent r (js ''ec'')
                 \<longrightarrow> elements w' (js ''ec-reading'') = elements w (js ''ec-reading''))
            \<and> (absent r (js ''ORP'')
                 \<longrightarrow> elements w' (js ''orp-reading'') = elements w (js ''orp-reading''))))
   \<and> settle coerce (FetchRejected x) w = Threw x w
   \<and> settle coerce (JsonRejected x) w = Threw x w"
proof (intro conjI impI)
  assume "absent r (js ''pH'')"
  then have "reading_pH coerce r w = Threw TypeError w"
    by (simp add: reading_pH_def absent_if_Ok)
  then show "handler coerce r w = Threw TypeError w"
    "settle coerce (Parsed r) w = Threw TypeError w"
    by (simp_all add: handler_def and_then_def settle_def)
next
  show "settle coerce (FetchRejected x) w = Threw x w"
    "settle coerce (JsonRejected x) w = Threw x w"
    by (simp_all add: settle_def)
next
  assume a: "absent r (js ''pH'') \<or> absent r (js ''T'') \<or> absent r (js ''ec'')
        \<or> absent r (js ''ORP'')"
  define w' where "w' = world_of (handler coerce r w)"
  from a have "threw (handler coerce r w)" by (rule handler_threw)
  then obtain e where h: "handler coerce r w = Threw e w'"
    unfolding w'_def using threw_world by blast
  then have s: "settle coerce (Parsed r) w = Threw e w'" by (simp add: settle_def)
  from a have g: "globals w' = globals w" unfolding w'_def by (rule handler_absent_globals)
  have o: "only_readings coerce r w w'" unfolding w'_def by (rule handler_only_readings)
  note d = only_readingsD [OF o]
  have n: "absent r (js ''pH'')
             \<longrightarrow> elements w' (js ''ph-reading'') = elements w (js ''ph-reading'')"
    using d(4) by (auto simp: absent_number_reading shown_def)
  have m: "absent r (js ''T'')
             \<longrightarrow> elements w' (js ''temp-reading'') = elements w (js ''temp-reading'')"
    using d(5) by (auto simp: absent_number_reading shown_def)
  have k: "absent r (js ''ec'')
             \<longrightarrow> elements w' (js ''ec-reading'') = elements w (js ''ec-reading'')"
    using d(6) by (auto simp: absent_number_reading shown_def)
  have l: "absent r (js ''ORP'')
             \<longrightarrow> elements w' (js ''orp-reading'') = elements w (js ''orp-reading'')"
    using d(7) by (auto simp: absent_number_reading shown_def)
  show "\<exists>e w'. handler coerce r w = Threw e w'
            \<and> settle coerce (Parsed r) w = Threw e w'
            \<and> requests w' = requests w \<and> cookie w' = cookie w \<and> globals w' = globals w
            \<and> (\<forall>ident. \<not> is_display ident \<longrightarrow> elements w' ident = elements w ident)
            \<and> (elements w' (js ''ph-reading'') = elements w (js ''ph-reading'')
               \<or> elements w' (js ''ph-reading'')
                   = shown (number_reading coerce r (js ''pH'')) 1
                       (elements w (js ''ph-reading'')))
            \<and> (elements w' (js ''temp-reading'') = elements w (js ''temp-reading'')
               \<or> elements w' (js ''temp-reading'')
                   = shown (number_reading coerce r (js ''T'')) 1
                       (elements w (js ''temp-reading'')))
            \<and> (elements w' (js ''ec-reading'') = elements w (js ''ec-reading'')
               \<or> elements w' (js ''ec-reading'')
                   = shown (map_option (\<lambda>v. multiply v (number_of 1000000))
                              (number_reading coerce r (js ''ec''))) 0
                       (elements w (js ''ec-reading'')))
            \<and> (elements w' (js ''orp-reading'') = elements w (js ''orp-reading'')
               \<or> elements w' (js ''orp-reading'')
                   = shown (number_reading coerce r (js ''ORP'')) 0
                       (elements w (js ''orp-reading'')))
            \<and> (absent r (js ''pH'')
                 \<longrightarrow> elements w' (js ''ph-reading'') = elements w (js ''ph-reading''))
            \<and> (absent r (js ''T'')
                 \<longrightarrow> elements w' (js ''temp-reading'') = elements w (js ''temp-reading''))
            \<and> (absent r (js ''ec'')
                 \<longrightarrow> elements w' (js ''ec-reading'') = elements w (js ''ec-reading''))
            \<and> (absent r (js ''ORP'')
                 \<longrightarrow> elements w' (js ''orp-reading'') = elements w (js ''orp-reading''))"
    by (intro exI [of _ e] exI [of _ w'] conjI) (rule h s g d n m k l)+
qed

lemma pH_only_number_readings:
  "number_reading to_NaN pH_only_response (js ''pH'') = Some (number_of (701 / 100))"
  "absent pH_only_response (js ''T'')" "absent pH_only_response (js ''ec'')"
  "absent pH_only_response (js ''ORP'')" "absent no_pH_response (js ''pH'')"
  by (simp_all add: number_reading_def response_eval no_pH_response_def)

text \<open>
  Claim C5 at the example without its field \<open>pH\<close>, where the page stays as it is, and at
  the response that has the field \<open>pH\<close> alone, where \<open>ph-reading\<close> can only show
  \<open>--\<close> or \<open>7.0\<close> and the other displays keep \<open>--\<close>.
\<close>

theorem handler_throws_on_absent_field_witness:
  "absent no_pH_response (js ''pH'')
   \<and> handler to_NaN no_pH_response page = Threw TypeError page
   \<and> settle to_NaN (Parsed no_pH_response) page = Threw TypeError page
   \<and> absent pH_only_response (js ''T'')
   \<and> (\<exists>e w'. handler to_NaN pH_only_response page = Threw e w'
          \<and> settle to_NaN (Parsed pH_only_response) page = Threw e w'
          \<and> requests w' = requests page \<and> cookie w' = cookie page
          \<and> globals w' = globals page
          \<and> (elements w' (js ''ph-reading'') = Some (js ''--'')
             \<or> elements w' (js ''ph-reading'') = Some (js ''7.0''))
          \<and> elements w' (js ''temp-reading'') = Some (js ''--'')
          \<and> elements w' (js ''ec-reading'') = Some (js ''--'')
          \<and> elements w' (js ''orp-reading'') = Some (js ''--''))"
proof -
  note f = pH_only_number_readings
  from f(5) handler_throws_on_absent_field [of no_pH_response to_NaN page]
  have a: "handler to_NaN no_pH_response page = Threw TypeError page"
    "settle to_NaN (Parsed no_pH_response) page = Threw TypeError page"
    by blast+
  from f(2) handler_throws_on_absent_field [of pH_only_response to_NaN page]
  obtain e w' where b: "handler to_NaN pH_only_response page = Threw e w'"
    "settle to_NaN (Parsed pH_only_response) page = Threw e w'"
    "requests w' = requests page" "cookie w' = cookie page" "globals w' = globals page"
    "elements w' (js ''ph-reading'') = elements page (js ''ph-reading'')
       \<or> elements w' (js ''ph-reading'')
           = shown (number_reading to_NaN pH_only_response (js ''pH'')) 1
                       (elements page (js ''ph-reading''))"
    "absent pH_only_response (js ''T'')
       \<longrightarrow> elements w' (js ''temp-reading'') = elements page (js ''temp-reading'')"
    "absent pH_only_response (js ''ec'')
       \<longrightarrow> elements w' (js ''ec-reading'') = elements page (js ''ec-reading'')"
    "absent pH_only_response (js ''ORP'')
       \<longrightarrow> elements w' (js ''orp-reading'') = elements page (js ''orp-reading'')"
    by blast
  from b(6) have c: "elements w' (js ''ph-reading'') = Some (js ''--'')
             \<or> elements w' (js ''ph-reading'') = Some (js ''7.0'')"
    unfolding f(1) shown_def option.case example_formatted page_texts .
  from b(7-9) f(2-4) have d: "elements w' (js ''temp-reading'') = Some (js ''--'')"
    "elements w' (js ''ec-reading'') = Some (js ''--'')"
    "elements w' (js ''orp-reading'') = Some (js ''--'')"
    unfolding page_texts by blast+
  from f(5) f(2) a b(1-5) c d show ?thesis by blast
qed

lemma reading_threw_elements:
  "reading_pH coerce r w = Threw e w' \<Longrightarrow> elements w' = elements w"
  "reading_T coerce r w = Threw e w' \<Longrightarrow> elements w' = elements w"
  "reading_ec coerce r w = Threw e w' \<Longrightarrow> elements w' = elements w"
  "reading_ORP coerce r w = Threw e w' \<Longrightarrow> elements w' = elements w"
  by (auto simp: reading_pH_def reading_T_def reading_ec_def reading_ORP_def if_Ok_def
        show_formatted_def set_textContent_def assign_disp_def
      split: sum.splits if_splits)

text \<open>
  Claim C9. The handler runs the four statements in the order \<open>pH\<close>, \<open>T\<close>, \<open>ec\<close>,
  \<open>ORP\<close> and nothing is undone when one of them throws. For a response whose \<open>pH\<close>
  carries \<open>Ok\<close> with the number \<open>v\<close> and which has no field \<open>T\<close>, on a page that has
  the element \<open>ph-reading\<close>, the handler throws a TypeError in the state where
  \<open>ph-reading\<close> shows \<open>format(v, 1)\<close> and everything else is as before. In general,
  when a later statement throws, the handler throws from the state that the earlier
  statements left, and the statement that throws writes no element.
\<close>

theorem handler_keeps_earlier_writes:
  "(elements w (js ''ph-reading'') \<noteq> None \<and> field_reading r (js ''pH'') = Some (Some v)
      \<and> absent r (js ''T'')
    \<longrightarrow> format v 1 = Inr (formatted v 1)
        \<and> handler coerce r w =
            Threw TypeError (w\<lparr>elements := (elements w)(js ''ph-reading'' \<mapsto> formatted v 1)\<rparr>))
   \<and> (reading_pH coerce r w = Returned w1 \<and> reading_T coerce r w1 = Threw e w'
      \<longrightarrow> handler coerce r w = Threw e w' \<and> elements w' = elements w1)
   \<and> (reading_pH coerce r w = Returned w1 \<and> reading_T coerce r w1 = Returned w2
        \<and> reading_ec coerce r w2 = Threw e w'
      \<longrightarrow> handler coerce r w = Threw e w' \<and> elements w' = elements w2)
   \<and> (reading_pH coerce r w = Returned w1 \<and> reading_T coerce r w1 = Returned w2
        \<and> reading_ec coerce r w2 = Returned w3 \<and> reading_ORP coerce r w3 = Threw e w'
      \<longrightarrow> handler coerce r w = Threw e w' \<and> elements w' = elements w3)"
proof (intro conjI impI)
  assume a: "elements w (js ''ph-reading'') \<noteq> None \<and> field_reading r (js ''pH'') = Some (Some v)
      \<and> absent r (js ''T'')"
  show "format v 1 = Inr (formatted v 1)" by (simp add: format_formatted)
  from a have "reading_pH coerce r w =
      Returned (w\<lparr>elements := (elements w)(js ''ph-reading'' \<mapsto> formatted v 1)\<rparr>)"
    using reading_pH_effect [of r "Some v" w coerce] by simp
  moreover from a have "reading_T coerce r w1 = Threw TypeError w1" for w1
    by (simp add: reading_T_def absent_if_Ok)
  ultimately show "handler coerce r w =
      Threw TypeError (w\<lparr>elements := (elements w)(js ''ph-reading'' \<mapsto> formatted v 1)\<rparr>)"
    by (simp add: handler_def and_then_def)
qed (auto simp: handler_def and_then_def reading_threw_elements)

lemma partial_fields:
  "field_reading pH_only_response (js ''pH'') = Some (Some (number_of (701 / 100)))"
  "field_reading upto_T_response (js ''pH'') = Some (Some (number_of (701 / 100)))"
  "field_reading upto_T_response (js ''T'') = Some (Some (number_of 25))"
  "field_reading upto_ec_response (js ''pH'') = Some (Some (number_of (701 / 100)))"
  "field_reading upto_ec_response (js ''T'') = Some (Some (number_of 25))"
  "field_reading upto_ec_response (js ''ec'') = Some (Some (number_of (15 / 10000)))"
  "absent pH_only_response (js ''T'')" "absent upto_T_response (js ''ec'')"
  "absent upto_ec_response (js ''ORP'')"
  by (simp_all add: response_eval upto_T_response_def upto_ec_response_def)

lemma partial_elements:
  "elements page (js ''ph-reading'') \<noteq> None"
  "elements page_pH (js ''temp-reading'') \<noteq> None"
  "elements page_T (js ''ec-reading'') \<noteq> None"
  by (simp_all add: page_pH_def page_T_def page_def js_def)

lemma partial_steps:
  "reading_pH to_NaN pH_only_response page = Returned page_pH"
  "reading_T to_NaN pH_only_response page_pH = Threw TypeError page_pH"
  "reading_pH to_NaN upto_T_response page = Returned page_pH"
  "reading_T to_NaN upto_T_response page_pH = Returned page_T"
  "reading_ec to_NaN upto_T_response page_T = Threw TypeError page_T"
  "reading_pH to_NaN upto_ec_response page = Returned page_pH"
  "reading_T to_NaN upto_ec_response page_pH = Returned page_T"
  "reading_ec to_NaN upto_ec_response page_T = Returned page_ec"
  "reading_ORP to_NaN upto_ec_response page_ec = Threw TypeError page_ec"
proof -
  note f = partial_fields and e = partial_elements
  show "reading_pH to_NaN pH_only_response page = Returned page_pH"
    using reading_pH_effect [OF f(1) e(1), of to_NaN]
    unfolding option.case example_formatted page_pH_def .
  show "reading_pH to_NaN upto_T_response page = Returned page_pH"
    using reading_pH_effect [OF f(2) e(1), of to_NaN]
    unfolding option.case example_formatted page_pH_def .
  show "reading_pH to_NaN upto_ec_response page = Returned page_pH"
    using reading_pH_effect [OF f(4) e(1), of to_NaN]
    unfolding option.case example_formatted page_pH_def .
  show "reading_T to_NaN upto_T_response page_pH = Returned page_T"
    using reading_T_effect [OF f(3) e(2), of to_NaN]
    unfolding option.case example_formatted page_T_def .
  show "reading_T to_NaN upto_ec_response page_pH = Returned page_T"
    using reading_T_effect [OF f(5) e(2), of to_NaN]
    unfolding option.case example_formatted page_T_def .
  show "reading_ec to_NaN upto_ec_response page_T = Returned page_ec"
    using reading_ec_effect [OF f(6) e(3), of to_NaN]
    unfolding option.case example_formatted page_ec_def .
  show "reading_T to_NaN pH_only_response page_pH = Threw TypeError page_pH"
    by (simp add: reading_T_def absent_if_Ok f)
  show "reading_ec to_NaN upto_T_response page_T = Threw TypeError page_T"
    by (simp add: reading_ec_def absent_if_Ok f)
  show "reading_ORP to_NaN upto_ec_response page_ec = Threw TypeError page_ec"
    by (simp add: reading_ORP_def absent_if_Ok f)
qed

text \<open>
  Claim C9 at the responses that have the first one, two and three fields of the example:
  the handler throws at the first absent field, from the page on which \<open>ph-reading\<close>
  shows \<open>7.0\<close>, then also \<open>temp-reading\<close> shows \<open>25.0\<close>, then also \<open>ec-reading\<close>
  shows \<open>1500\<close>.
\<close>

theorem handler_keeps_earlier_writes_witness:
  "elements page (js ''ph-reading'') \<noteq> None
   \<and> field_reading pH_only_response (js ''pH'') = Some (Some (number_of (701 / 100)))
   \<and> absent pH_only_response (js ''T'')
   \<and> handler to_NaN pH_only_response page =
       Threw TypeError
         (page\<lparr>elements := (elements page)(js ''ph-reading'' \<mapsto> js ''7.0'')\<rparr>)
   \<and> reading_pH to_NaN pH_only_response page = Returned page_pH
   \<and> reading_T to_NaN pH_only_response page_pH = Threw TypeError page_pH
   \<and> handler to_NaN pH_only_response page = Threw TypeError page_pH
   \<and> reading_pH to_NaN upto_T_response page = Returned page_pH
   \<and> reading_T to_NaN upto_T_response page_pH = Returned page_T
   \<and> reading_ec to_NaN upto_T_response page_T = Threw TypeError page_T
   \<and> handler to_NaN upto_T_response page = Threw TypeError page_T
   \<and> reading_pH to_NaN upto_ec_response page = Returned page_pH
   \<and> reading_T to_NaN upto_ec_response page_pH = Returned page_T
   \<and> reading_ec to_NaN upto_ec_response page_T = Returned page_ec
   \<and> reading_ORP to_NaN upto_ec_response page_ec = Threw TypeError page_ec
   \<and> handler to_NaN upto_ec_response page = Threw TypeError page_ec"
proof -
  have h: "elements page (js ''ph-reading'') \<noteq> None"
    "field_reading pH_only_response (js ''pH'') = Some (Some (number_of (701 / 100)))"
    "absent pH_only_response (js ''T'')"
    by (rule partial_elements partial_fields)+
  with handler_keeps_earlier_writes [of page pH_only_response "number_of (701 / 100)" to_NaN]
  have "handler to_NaN pH_only_response page =
       Threw TypeError
         (page\<lparr>elements := (elements page)(js ''ph-reading'' \<mapsto>
            formatted (number_of (701 / 100)) 1)\<rparr>)"
    by blast
  then have a: "handler to_NaN pH_only_response page =
       Threw TypeError
         (page\<lparr>elements := (elements page)(js ''ph-reading'' \<mapsto> js ''7.0'')\<rparr>)"
    unfolding example_formatted .
  have b: "handler to_NaN pH_only_response page = Threw TypeError page_pH"
    using handler_keeps_earlier_writes
      [of page pH_only_response _ to_NaN page_pH TypeError page_pH] partial_steps
    by blast
  have c: "handler to_NaN upto_T_response page = Threw TypeError page_T"
    using handler_keeps_earlier_writes
      [of page upto_T_response _ to_NaN page_pH TypeError page_T page_T] partial_steps
    by blast
  have d: "handler to_NaN upto_ec_response page = Threw TypeError page_ec"
    using handler_keeps_earlier_writes
      [of page upto_ec_response _ to_NaN page_pH TypeError page_ec page_T page_ec]
      partial_steps
    by blast
  from h a b c d partial_steps show ?thesis by blast
qed

text \<open>
  Claim C3, as the code has it. On a page that has the four display elements, for every
  response each of whose four fields can be inspected (it is there, it is not \<open>null\<close>,
  it has no own property named \<open>hasOwnProperty\<close>) and carries either no \<open>Ok\<close> or
  \<open>Ok\<close> with a number: the handler returns; the display of a field without \<open>Ok\<close>
  keeps its text, and the display of a field with \<open>Ok\<close> shows the formatted payload
  (\<open>shown\<close> is that choice).
\<close>

theorem handler_skips_fields_without_Ok:
  assumes "has_displays w"
    and "field_reading r (js ''pH'') = Some pH" and "field_reading r (js ''T'') = Some T"
    and "field_reading r (js ''ec'') = Some ec" and "field_reading r (js ''ORP'') = Some ORP"
  shows "\<exists>w'. handler coerce r w = Returned w'
     \<and> elements w' (js ''ph-reading'') = shown pH 1 (elements w (js ''ph-reading''))
     \<and> elements w' (js ''temp-reading'') = shown T 1 (elements w (js ''temp-reading''))
     \<and> elements w' (js ''ec-reading'') =
           shown (map_option (\<lambda>v. multiply v (number_of 1000000)) ec) 0
             (elements w (js ''ec-reading''))
     \<and> elements w' (js ''orp-reading'') = shown ORP 0 (elements w (js ''orp-reading''))"
  using handler_effect [OF assms, of coerce] by blast

text \<open>
  Claim C3 at a response whose \<open>pH\<close> reports an error: \<open>ph-reading\<close> keeps its text
  \<open>--\<close> and the other three displays are written.
\<close>

theorem handler_skips_fields_without_Ok_witness:
  "has_displays page
   \<and> field_reading pH_error_response (js ''pH'') = Some None
   \<and> field_reading pH_error_response (js ''T'') = Some (Some (number_of 25))
   \<and> field_reading pH_error_response (js ''ec'') = Some (Some (number_of (15 / 10000)))
   \<and> field_reading pH_error_response (js ''ORP'') = Some (Some (number_of (1502 / 10)))
   \<and> (\<exists>w'. handler to_NaN pH_error_response page = Returned w'
          \<and> elements w' (js ''ph-reading'') = Some (js ''--'')
          \<and> elements w' (js ''temp-reading'') = Some (js ''25.0'')
          \<and> elements w' (js ''ec-reading'') = Some (js ''1500'')
          \<and> elements w' (js ''orp-reading'') = Some (js ''150''))"
proof -
  from handler_skips_fields_without_Ok [OF has_displays_page pH_error_fields, of to_NaN]
  have "\<exists>w'. handler to_NaN pH_error_response page = Returned w'
          \<and> elements w' (js ''ph-reading'') = Some (js ''--'')
          \<and> elements w' (js ''temp-reading'') = Some (js ''25.0'')
          \<and> elements w' (js ''ec-reading'') = Some (js ''1500'')
          \<and> elements w' (js ''orp-reading'') = Some (js ''150'')"
    unfolding shown_def option.map option.case example_formatted page_texts .
  with has_displays_page pH_error_fields show ?thesis by blast
qed

text \<open>
  Claim C3 as stated fails: this response has all four top-level fields, its \<open>pH\<close> is
  \<open>null\<close>, and its \<open>T\<close> carries \<open>Ok\<close>. Inspecting \<open>pH\<close> throws, so \<open>temp-reading\<close>
  is not written.
\<close>

theorem handler_throws_on_null_field:
  "handler to_NaN pH_null_response page = Threw TypeError page
   \<and> field_reading pH_null_response (js ''T'') = Some (Some (number_of 25))
   \<and> elements page (js ''temp-reading'') = Some (js ''--'')"
  by (simp add: handler_def and_then_def reading_pH_def if_Ok_def response_eval)

text \<open>
  Claim C6 is where the code goes astray: the fourth statement assigns the payload of
  \<open>ORP\<close> to the undeclared variable \<open>disp\<close>. On the example page, which has no such
  variable, the handler leaves the global variable \<open>disp\<close> holding \<open>150.2\<close>.
\<close>

theorem handler_assigns_global_disp:
  "globals page (js ''disp'') = None
   \<and> (\<exists>w'. handler to_NaN example_response page = Returned w'
          \<and> globals w' (js ''disp'') = Some (Num (number_of (1502 / 10))))"
proof -
  have "globals page (js ''disp'') = None" by (simp add: page_def)
  moreover from handler_effect [OF has_displays_page example_fields, of to_NaN]
  obtain w' where "handler to_NaN example_response page = Returned w'"
    "globals w' = (globals page)(js ''disp'' \<mapsto> Num (number_of (1502 / 10)))"
    by auto
  ultimately show ?thesis by auto
qed

text \<open>
  Claim C8, as the code has it. An invocation in which \<open>getCookie\<close> returns passes one
  request to \<open>fetch\<close>: \<open>GET /api/readings\<close> with credentials included, the header
  \<open>X-CSRFToken\<close> holding what \<open>getCookie\<close> returned on this invocation (\<open>null\<close> when
  there is no \<open>csrftoken\<close> cookie), and the three fixed headers. A second invocation
  reads the cookie again. An invocation in which \<open>getCookie\<close> throws, which it does with
  a URIError only, throws that URIError from the state it was called in: it passes no
  request to \<open>fetch\<close>.
\<close>

theorem update_readings_request:
  "(getCookie (cookie w) = Inr token
      \<longrightarrow> update_readings w = Returned (w\<lparr>requests := requests w @ [readings_request token]\<rparr>))
   \<and> (first_pair (js ''csrftoken'') (cookie w) = None
      \<longrightarrow> update_readings w = Returned (w\<lparr>requests := requests w @ [readings_request None]\<rparr>))
   \<and> (getCookie (cookie w) = Inr token \<and> getCookie later = Inr token'
      \<longrightarrow> and_then (update_readings w) (\<lambda>w1. update_readings (w1\<lparr>cookie := later\<rparr>))
          = Returned (w\<lparr>cookie := later,
               requests := requests w @ [readings_request token, readings_request token']\<rparr>))
   \<and> (getCookie (cookie w) = Inl e
      \<longrightarrow> e = URIError \<and> update_readings w = Threw URIError w)
   \<and> url (readings_request token) = js ''/api/readings''
   \<and> method' (readings_request token) = js ''GET''
   \<and> credentials (readings_request token) = js ''include''
   \<and> headers (readings_request token) =
        [(js ''X-CSRFToken'', token),
         (js ''Content-Type'', Some (js ''application/json; charset=UTF-8'')),
         (js ''Accept'', Some (js ''application/json'')),
         (js ''X-Requested-With'', Some (js ''XMLHttpRequest''))]"
proof -
  have "first_pair (js ''csrftoken'') (cookie w) = None \<Longrightarrow> getCookie (cookie w) = Inr None"
    by (simp add: getCookie_find)
  moreover have "getCookie (cookie w) = Inl e \<Longrightarrow> e = URIError"
    by (rule getCookie_URIError)
  ultimately show ?thesis
    by (auto simp: update_readings_def and_then_def readings_request_def)
qed

text \<open>
  Claim C8 on the example page, whose token is \<open>abc123\<close>; on the same page without
  a \<open>csrftoken\<close> cookie; at two invocations between which the token changes to
  \<open>zzz\<close>; and with the malformed token \<open>%zz\<close>.
\<close>

theorem update_readings_request_witness:
  "getCookie (cookie page) = Inr (Some (js ''abc123''))
   \<and> update_readings page =
       Returned (page\<lparr>requests := [readings_request (Some (js ''abc123''))]\<rparr>)
   \<and> first_pair (js ''csrftoken'') (cookie (page\<lparr>cookie := js ''other=xyz''\<rparr>)) = None
   \<and> update_readings (page\<lparr>cookie := js ''other=xyz''\<rparr>) =
       Returned (page\<lparr>cookie := js ''other=xyz'', requests := [readings_request None]\<rparr>)
   \<and> getCookie (js ''csrftoken=zzz'') = Inr (Some (js ''zzz''))
   \<and> and_then (update_readings page)
         (\<lambda>w1. update_readings (w1\<lparr>cookie := js ''csrftoken=zzz''\<rparr>)) =
       Returned (page\<lparr>cookie := js ''csrftoken=zzz'',
         requests := [readings_request (Some (js ''abc123'')),
                      readings_request (Some (js ''zzz''))]\<rparr>)
   \<and> getCookie (cookie (page\<lparr>cookie := js ''csrftoken=%zz''\<rparr>)) = Inl URIError
   \<and> update_readings (page\<lparr>cookie := js ''csrftoken=%zz''\<rparr>) =
       Threw URIError (page\<lparr>cookie := js ''csrftoken=%zz''\<rparr>)"
proof -
  have c: "getCookie (cookie page) = Inr (Some (js ''abc123''))"
    by (simp add: page_def string_eval)
  have n: "first_pair (js ''csrftoken'') (cookie (page\<lparr>cookie := js ''other=xyz''\<rparr>)) = None"
    by (simp add: first_pair_def cookie_pairs_def has_name_def string_eval)
  have l: "getCookie (js ''csrftoken=zzz'') = Inr (Some (js ''zzz''))"
    by (simp add: string_eval)
  have m: "getCookie (cookie (page\<lparr>cookie := js ''csrftoken=%zz''\<rparr>)) = Inl URIError"
    by (simp add: string_eval)
  have r: "requests page = []" by (simp add: page_def)
  from c l
    update_readings_request
      [of page "Some (js ''abc123'')" "js ''csrftoken=zzz''" "Some (js ''zzz'')"]
  have "update_readings page =
      Returned (page\<lparr>requests := requests page @ [readings_request (Some (js ''abc123''))]\<rparr>)"
    and "and_then (update_readings page)
         (\<lambda>w1. update_readings (w1\<lparr>cookie := js ''csrftoken=zzz''\<rparr>)) =
       Returned (page\<lparr>cookie := js ''csrftoken=zzz'',
         requests := requests page @ [readings_request (Some (js ''abc123'')),
                      readings_request (Some (js ''zzz''))]\<rparr>)"
    by blast+
  moreover from n update_readings_request [of "page\<lparr>cookie := js ''other=xyz''\<rparr>"]
  have "update_readings (page\<lparr>cookie := js ''other=xyz''\<rparr>) =
      Returned (page\<lparr>cookie := js ''other=xyz'',
        requests := requests (page\<lparr>cookie := js ''other=xyz''\<rparr>) @ [readings_request None]\<rparr>)"
    by blast
  moreover from m
    update_readings_request [of "page\<lparr>cookie := js ''csrftoken=%zz''\<rparr>" _ _ _ URIError]
  have "update_readings (page\<lparr>cookie := js ''csrftoken=%zz''\<rparr>) =
       Threw URIError (page\<lparr>cookie := js ''csrftoken=%zz''\<rparr>)"
    by blast
  ultimately show ?thesis using c n l m r by simp
qed

text \<open>
  Claim C8 as stated fails: with the cookie \<open>csrftoken=%\<close> the invocation throws the
  URIError of \<open>getCookie\<close> before \<open>fetch\<close> is called, so it issues no request.
\<close>

theorem update_readings_malformed_cookie:
  "update_readings (page\<lparr>cookie := js ''csrftoken=%''\<rparr>)
     = Threw URIError (page\<lparr>cookie := js ''csrftoken=%''\<rparr>)
   \<and> requests (page\<lparr>cookie := js ''csrftoken=%''\<rparr>) = []"
proof -
  have "getCookie (js ''csrftoken=%'') = Inl URIError" by (simp add: string_eval)
  then show ?thesis by (simp add: update_readings_def page_def)
qed

end
